theory Spec2Isabelle
  imports Complex_Main
begin

section \<open>Python values, requests and responses\<close>

text \<open>
  The client of \<^verbatim>\<open>github_client.py\<close> exchanges JSON documents and keyword
  arguments with the \<^verbatim>\<open>requests\<close> library. Both are Python values; a dictionary
  is the association list of its items in insertion order (keys distinct).
\<close>

datatype pyval =
    PNone
  | PBool bool
  | PInt int
  | PStr string
  | PList "pyval list"
  | PTuple "pyval list"
  | PDict "(string \<times> pyval) list"

type_synonym kwargs = "(string \<times> pyval) list"

text \<open>Truth value of a Python object, as \<^verbatim>\<open>if x:\<close> tests it.\<close>

fun truthy :: "pyval \<Rightarrow> bool" where
  "truthy PNone = False"
| "truthy (PBool b) = b"
| "truthy (PInt i) = (i \<noteq> 0)"
| "truthy (PStr s) = (s \<noteq> [])"
| "truthy (PList xs) = (xs \<noteq> [])"
| "truthy (PTuple xs) = (xs \<noteq> [])"
| "truthy (PDict kvs) = (kvs \<noteq> [])"

text \<open>\<^verbatim>\<open>len(x)\<close>: a \<^verbatim>\<open>TypeError\<close> (here \<open>None\<close>) on \<^verbatim>\<open>None\<close>, booleans and numbers.\<close>

fun py_len :: "pyval \<Rightarrow> nat option" where
  "py_len (PStr s) = Some (length s)"
| "py_len (PList xs) = Some (length xs)"
| "py_len (PTuple xs) = Some (length xs)"
| "py_len (PDict kvs) = Some (length kvs)"
| "py_len _ = None"

text \<open>
  \<^verbatim>\<open>x.get(k)\<close>: only a dictionary has the method (an \<^verbatim>\<open>AttributeError\<close>, here the
  outer \<open>None\<close>, otherwise); a missing key gives Python's \<^verbatim>\<open>None\<close>.
\<close>

fun py_get :: "pyval \<Rightarrow> string \<Rightarrow> pyval option" where
  "py_get (PDict kvs) k = Some (case map_of kvs k of None \<Rightarrow> PNone | Some v \<Rightarrow> v)"
| "py_get _ k = None"

text \<open>
  \<^verbatim>\<open>x[k]\<close> with a string key: a \<^verbatim>\<open>KeyError\<close> on a dictionary without the key, a
  \<^verbatim>\<open>TypeError\<close> on every other value (both \<open>None\<close>).
\<close>

fun py_item :: "pyval \<Rightarrow> string \<Rightarrow> pyval option" where
  "py_item (PDict kvs) k = map_of kvs k"
| "py_item _ k = None"

text \<open>\<^verbatim>\<open>sep.join(xs)\<close>\<close>

fun join :: "string \<Rightarrow> string list \<Rightarrow> string" where
  "join sep [] = []"
| "join sep [x] = x"
| "join sep (x # y # ys) = x @ sep @ join sep (y # ys)"

text \<open>\<^verbatim>\<open>str.upper\<close> on ASCII text (a method is a word of ASCII letters).\<close>

definition upper_char :: "char \<Rightarrow> char" where
  "upper_char ch =
     (let n = (of_char ch :: nat) in if 97 \<le> n \<and> n \<le> 122 then char_of (n - 32) else ch)"

definition upper :: "string \<Rightarrow> string" where
  "upper s = map upper_char s"

text \<open>
  A \<^verbatim>\<open>requests.Response\<close>: the status code, whether it carries a
  \<^verbatim>\<open>Retry-After\<close> header, what \<^verbatim>\<open>.json()\<close> returns (\<open>None\<close> when it raises on a body
  that is not JSON) and the raw bytes \<^verbatim>\<open>.content\<close>.
\<close>

record response =
  status_code :: int
  retry_after :: bool
  json_body :: "pyval option"
  content :: string

text \<open>
  A request as the client hands it to \<^verbatim>\<open>self.session.request(method, url, **kwargs)\<close>.
  The session carries the \<^verbatim>\<open>Authorization\<close> header built from the client's token.
\<close>

record request =
  verb :: string
  url :: string
  kwargs :: kwargs
  auth :: string

text \<open>
  What one call of \<^verbatim>\<open>session.request\<close> does: it returns a response, or raises
  \<^verbatim>\<open>requests.exceptions.Timeout\<close>, \<^verbatim>\<open>requests.exceptions.ConnectionError\<close> or any
  other exception (\<^verbatim>\<open>requests.exceptions.RetryError\<close> among them).
\<close>

datatype outcome = Returned response | Timeout | ConnectionError | OtherException

text \<open>
  What one HTTP exchange on the wire does, beneath the session: the remote side answers, or
  the connection is not established (in time, or at all), or the answer does not arrive
  (in time, or the connection breaks), or something else is raised. An answer is the
  response as the session would return it; redirects are not followed here.
\<close>

datatype event =
    Answer response
  | ConnectTimeout
  | ConnectFailure
  | ReadTimeout
  | ReadFailure
  | Unexpected

text \<open>
  A Python object the client passes around: a \<^verbatim>\<open>requests.Response\<close> or a plain value;
  \<^verbatim>\<open>None\<close> is \<open>Val PNone\<close>. A response is true when \<^verbatim>\<open>.ok\<close>, that is unless
  \<^verbatim>\<open>raise_for_status\<close> would raise (a status from 400 to 599).
\<close>

datatype pyobj = Resp response | Val pyval

fun obj_truthy :: "pyobj \<Rightarrow> bool" where
  "obj_truthy (Resp r) = (\<not> (400 \<le> status_code r \<and> status_code r < 600))"
| "obj_truthy (Val v) = truthy v"

section \<open>The environment\<close>

text \<open>
  The remote side is a function from the history of requests put on the wire so far (the
  current one last) to what the current exchange does and the time it takes (a pause the
  session makes before it tries again is part of that time). The world records the wall
  clock \<^verbatim>\<open>datetime.now()\<close> in seconds, every request the client hands to the session,
  every request the session puts on the wire and every \<^verbatim>\<open>time.sleep\<close> of the client.
\<close>

record world =
  server :: "request list \<Rightarrow> event \<times> real"
  now :: real
  sent :: "request list"
  wire :: "request list"
  slept :: "real list"

definition exchange :: "request \<Rightarrow> world \<Rightarrow> event \<times> world" where
  "exchange rq w =
     (let h = wire w @ [rq]; (ev, dt) = server w h
      in (ev, w\<lparr>now := now w + dt, wire := h\<rparr>))"

text \<open>
  \<^verbatim>\<open>_setup_session\<close> mounts on the session, for \<^verbatim>\<open>http://\<close> and \<^verbatim>\<open>https://\<close>, an
  \<^verbatim>\<open>HTTPAdapter\<close> whose \<^verbatim>\<open>max_retries\<close> is
  \<^verbatim>\<open>Retry(total=3, backoff_factor=1, status_forcelist=[429, 500, 502, 503, 504],
  allowed_methods=["HEAD", "GET", "OPTIONS", "POST", "PUT", "DELETE"])\<close>. The factor sets the
  pauses between the tries of the adapter, which are left to the durations above.
\<close>

definition retry_total :: nat where
  "retry_total = 3"

definition status_forcelist :: "int list" where
  "status_forcelist = [429, 500, 502, 503, 504]"

definition allowed_methods :: "string list" where
  "allowed_methods = [''HEAD'', ''GET'', ''OPTIONS'', ''POST'', ''PUT'', ''DELETE'']"

text \<open>
  The retry policy of \<^verbatim>\<open>urllib3\<close> under that configuration, with \<open>n\<close> the number of
  retries that remain. \<^verbatim>\<open>Retry.is_retry\<close>: the answer to a request with an allowed method
  is tried again when its status is in the force list, or when retries remain and it carries
  \<^verbatim>\<open>Retry-After\<close> with status 413, 429 or 503.
\<close>

definition method_retryable :: "string \<Rightarrow> bool" where
  "method_retryable m = (upper m \<in> set allowed_methods)"

definition is_retry :: "nat \<Rightarrow> string \<Rightarrow> response \<Rightarrow> bool" where
  "is_retry n m r =
     (method_retryable m
      \<and> (status_code r \<in> set status_forcelist
           \<or> (n \<noteq> 0 \<and> retry_after r \<and> status_code r \<in> set [413, 429, 503])))"

text \<open>
  \<^verbatim>\<open>Retry.increment\<close>: a failure to connect is tried again whatever the method, a failure
  to read only for an allowed method.
\<close>

fun retried :: "nat \<Rightarrow> string \<Rightarrow> event \<Rightarrow> bool" where
  "retried n m (Answer r) = is_retry n m r"
| "retried n m ConnectTimeout = True"
| "retried n m ConnectFailure = True"
| "retried n m ReadTimeout = method_retryable m"
| "retried n m ReadFailure = method_retryable m"
| "retried n m Unexpected = False"

text \<open>
  What \<^verbatim>\<open>session.request\<close> returns or raises when the exchange is not tried again, either
  because the policy does not retry it or because no retry remains. With no retry left,
  \<^verbatim>\<open>urllib3\<close> raises \<^verbatim>\<open>MaxRetryError\<close>, which \<^verbatim>\<open>HTTPAdapter.send\<close> turns into
  \<^verbatim>\<open>RetryError\<close> for an answer with a forced status, into \<^verbatim>\<open>ConnectTimeout\<close> (a
  \<^verbatim>\<open>Timeout\<close>) for a connect timeout and into \<^verbatim>\<open>ConnectionError\<close> otherwise. A read
  failure that is not retried surfaces as \<^verbatim>\<open>ReadTimeout\<close> or \<^verbatim>\<open>ConnectionError\<close>.
\<close>

fun handed_back :: "nat \<Rightarrow> string \<Rightarrow> event \<Rightarrow> outcome" where
  "handed_back n m (Answer r) = (if is_retry n m r then OtherException else Returned r)"
| "handed_back n m ConnectTimeout = Timeout"
| "handed_back n m ConnectFailure = ConnectionError"
| "handed_back n m ReadTimeout = (if method_retryable m then ConnectionError else Timeout)"
| "handed_back n m ReadFailure = ConnectionError"
| "handed_back n m Unexpected = OtherException"

text \<open>\<^verbatim>\<open>HTTPAdapter.send\<close> with \<open>n\<close> retries left: at most \<open>n + 1\<close> exchanges.\<close>

fun adapter_send :: "nat \<Rightarrow> request \<Rightarrow> world \<Rightarrow> outcome \<times> world" where
  "adapter_send 0 rq w =
     (let (ev, w1) = exchange rq w in (handed_back 0 (verb rq) ev, w1))"
| "adapter_send (Suc n) rq w =
     (let (ev, w1) = exchange rq w
      in if retried (Suc n) (verb rq) ev then adapter_send n rq w1
         else (handed_back (Suc n) (verb rq) ev, w1))"

text \<open>One call of \<^verbatim>\<open>self.session.request\<close> (or \<^verbatim>\<open>self.session.get\<close>).\<close>

definition session_request :: "request \<Rightarrow> world \<Rightarrow> outcome \<times> world" where
  "session_request rq w = adapter_send retry_total rq (w\<lparr>sent := sent w @ [rq]\<rparr>)"

definition sleep :: "real \<Rightarrow> world \<Rightarrow> world" where
  "sleep t w = w\<lparr>now := now w + t, slept := slept w @ [t]\<rparr>"

section \<open>The client\<close>

text \<open>
  Library functions the client calls and this repository does not define:
  \<^verbatim>\<open>hashlib.md5(s.encode()).hexdigest()\<close>, \<^verbatim>\<open>str\<close> on a tuple or dictionary,
  \<^verbatim>\<open>base64.b64encode(b).decode('utf-8')\<close> and \<^verbatim>\<open>base64.b64decode\<close> (\<open>None\<close> when it
  raises). They are parameters of the model.
\<close>

record pylib =
  md5_hexdigest :: "string \<Rightarrow> string"
  str_of :: "pyval \<Rightarrow> string"
  b64encode :: "string \<Rightarrow> string"
  b64decode :: "string \<Rightarrow> string option"

text \<open>
  \<^verbatim>\<open>self.cache\<close> holds responses (stored by \<^verbatim>\<open>_make_request\<close>) and decoded JSON
  documents (stored by \<^verbatim>\<open>get_repo_by_name\<close>), each with the time it was stored.
\<close>

record client =
  token :: string
  username :: string
  cache :: "string \<rightharpoonup> pyobj \<times> real"
  cache_expiry :: real
  session_closed :: bool
  request_count :: nat
  cached_requests :: nat

definition base_url :: string where
  "base_url = ''https://api.github.com''"

text \<open>
  \<^verbatim>\<open>GitHubClient.__init__(token, username)\<close>. The session it creates is configured by
  \<^verbatim>\<open>_setup_session\<close>, the same way for every client: \<open>session_request\<close> above is a
  call of that session, with the adapter and its retry policy.
\<close>

definition init :: "string \<Rightarrow> string \<Rightarrow> client" where
  "init tok user =
     \<lparr>token = tok, username = user, cache = Map.empty, cache_expiry = 300,
      session_closed = False, request_count = 0, cached_requests = 0\<rparr>"

definition max_retries :: nat where
  "max_retries = 3"

definition retryable :: "int \<Rightarrow> bool" where
  "retryable st = (st \<in> set [429, 500, 502, 503, 504])"

text \<open>\<^verbatim>\<open>hashlib.md5((url + str(kwargs)).encode()).hexdigest()\<close>\<close>

definition cache_key :: "pylib \<Rightarrow> string \<Rightarrow> kwargs \<Rightarrow> string" where
  "cache_key L u kw = md5_hexdigest L (u @ str_of L (PDict kw))"

text \<open>The cache check at the head of \<^verbatim>\<open>_make_request\<close>: the entry, if present and unexpired.\<close>

definition cache_hit :: "client \<Rightarrow> world \<Rightarrow> string option \<Rightarrow> pyobj option" where
  "cache_hit c w ck =
     (case ck of
        None \<Rightarrow> None
      | Some k \<Rightarrow>
          (case cache c k of
             None \<Rightarrow> None
           | Some (v, ts) \<Rightarrow> if now w - ts < cache_expiry c then Some v else None))"

text \<open>\<^verbatim>\<open>if 'timeout' not in kwargs: kwargs['timeout'] = (10, 30)\<close>\<close>

definition default_timeout :: "kwargs \<Rightarrow> kwargs" where
  "default_timeout kw =
     (case map_of kw ''timeout'' of
        None \<Rightarrow> kw @ [(''timeout'', PTuple [PInt 10, PInt 30])]
      | Some _ \<Rightarrow> kw)"

text \<open>\<^verbatim>\<open>if cache_key and response.status_code < 400: self.cache[cache_key] = ...\<close>\<close>

definition store_response :: "string option \<Rightarrow> response \<Rightarrow> real \<Rightarrow> client \<Rightarrow> client" where
  "store_response ck r t c =
     (case ck of
        None \<Rightarrow> c
      | Some k \<Rightarrow>
          if k \<noteq> [] \<and> status_code r < 400
          then c\<lparr>cache := (cache c)(k \<mapsto> (Resp r, t))\<rparr> else c)"

text \<open>
  The loop \<^verbatim>\<open>for attempt in range(max_retries)\<close> of \<^verbatim>\<open>_make_request\<close>, over the
  attempts that remain. Falling out of the loop returns \<^verbatim>\<open>None\<close>.
\<close>

fun request_loop ::
  "string \<Rightarrow> string \<Rightarrow> kwargs \<Rightarrow> string option \<Rightarrow> nat list \<Rightarrow> client \<Rightarrow> world
     \<Rightarrow> pyobj \<times> client \<times> world" where
  "request_loop m u kw ck [] c w = (Val PNone, c, w)"
| "request_loop m u kw ck (attempt # rest) c w =
     (let c1 = c\<lparr>request_count := request_count c + 1\<rparr>;
          (out, w1) = session_request \<lparr>verb = m, url = u, kwargs = kw, auth = token c\<rparr> w
      in case out of
           Returned r \<Rightarrow>
             (let c2 = store_response ck r (now w1) c1
              in if status_code r < 400 then (Resp r, c2, w1)
                 else if status_code r = 401 then (Resp r, c2, w1)
                 else if status_code r = 403 then (Resp r, c2, w1)
                 else if retryable (status_code r) then
                   (if attempt < max_retries - 1
                    then request_loop m u kw ck rest c2 (sleep (2 ^ attempt + 1) w1)
                    else (Resp r, c2, w1))
                 else (Resp r, c2, w1))
         | Timeout \<Rightarrow>
             (if attempt < max_retries - 1
              then request_loop m u kw ck rest c1 (sleep (2 ^ attempt + 1) w1)
              else (Val PNone, c1, w1))
         | ConnectionError \<Rightarrow>
             (if attempt < max_retries - 1
              then request_loop m u kw ck rest c1 (sleep (2 ^ attempt + 1) w1)
              else (Val PNone, c1, w1))
         | OtherException \<Rightarrow> (Val PNone, c1, w1))"

text \<open>\<^verbatim>\<open>GitHubClient._make_request(method, url, use_cache, **kwargs)\<close>\<close>

definition make_request ::
  "pylib \<Rightarrow> string \<Rightarrow> string \<Rightarrow> bool \<Rightarrow> kwargs \<Rightarrow> client \<Rightarrow> world
     \<Rightarrow> pyobj \<times> client \<times> world" where
  "make_request L m u use_cache kw c w =
     (let ck = (if use_cache \<and> upper m = ''GET'' then Some (cache_key L u kw) else None)
      in case cache_hit c w ck of
           Some v \<Rightarrow> (v, c\<lparr>cached_requests := cached_requests c + 1\<rparr>, w)
         | None \<Rightarrow> request_loop m u (default_timeout kw) ck [0..<max_retries] c w)"

section \<open>Repository operations\<close>

text \<open>
  Formatting a value into an f-string: a string as it is, anything else through \<^verbatim>\<open>str\<close>.
\<close>

definition format_str :: "pylib \<Rightarrow> pyval \<Rightarrow> string" where
  "format_str L v = (case v of PStr s \<Rightarrow> s | _ \<Rightarrow> str_of L v)"

text \<open>
  The decorator \<^verbatim>\<open>cache_result(expiry_seconds)\<close>. Its dictionary \<^verbatim>\<open>cache\<close> is created
  once, when the decorated method is defined, so it belongs to the process and not to a
  client; the key is taken from the arguments after \<^verbatim>\<open>self\<close>.
\<close>

type_synonym memo = "string \<rightharpoonup> pyval \<times> real"

definition memo_key :: "pylib \<Rightarrow> pyval list \<Rightarrow> kwargs \<Rightarrow> string" where
  "memo_key L args kw = md5_hexdigest L (str_of L (PTuple args) @ str_of L (PDict kw))"

definition memo_hit :: "memo \<Rightarrow> real \<Rightarrow> world \<Rightarrow> string \<Rightarrow> pyval option" where
  "memo_hit mem expiry w k =
     (case mem k of
        None \<Rightarrow> None
      | Some (result, ts) \<Rightarrow> if now w - ts < expiry then Some result else None)"

definition cache_result ::
  "pylib \<Rightarrow> real \<Rightarrow> pyval list \<Rightarrow> kwargs \<Rightarrow> (client \<Rightarrow> world \<Rightarrow> pyval \<times> client \<times> world)
     \<Rightarrow> memo \<Rightarrow> client \<Rightarrow> world \<Rightarrow> pyval \<times> memo \<times> client \<times> world" where
  "cache_result L expiry args kw func mem c w =
     (let k = memo_key L args kw
      in case memo_hit mem expiry w k of
           Some result \<Rightarrow> (result, mem, c, w)
         | None \<Rightarrow>
             (let (result, c1, w1) = func c w
              in (result,
                  if result \<noteq> PNone then mem(k \<mapsto> (result, now w1)) else mem,
                  c1, w1)))"

text \<open>
  The body of \<^verbatim>\<open>get_user_repos\<close>. Inside its \<^verbatim>\<open>try\<close>, \<^verbatim>\<open>.status_code\<close> on a cached
  object that is no response, \<^verbatim>\<open>.json()\<close> on a body that is not JSON and \<^verbatim>\<open>len\<close> on
  a number raise, and the handler returns \<^verbatim>\<open>None\<close>.
\<close>

definition get_user_repos_body :: "pylib \<Rightarrow> client \<Rightarrow> world \<Rightarrow> pyval \<times> client \<times> world" where
  "get_user_repos_body L c w =
     (let (resp, c1, w1) =
            make_request L ''GET'' (base_url @ ''/user/repos?per_page=100'') True [] c w
      in (case resp of
            Val _ \<Rightarrow> PNone
          | Resp r \<Rightarrow>
              if status_code r = 200 then
                (case json_body r of
                   None \<Rightarrow> PNone
                 | Some repos \<Rightarrow> (case py_len repos of None \<Rightarrow> PNone | Some _ \<Rightarrow> repos))
              else PNone,
          c1, w1))"

definition get_user_repos ::
  "pylib \<Rightarrow> memo \<Rightarrow> client \<Rightarrow> world \<Rightarrow> pyval \<times> memo \<times> client \<times> world" where
  "get_user_repos L mem c w = cache_result L 300 [] [] (get_user_repos_body L) mem c w"




text \<open>\<^verbatim>\<open>_update_existing_file(repo, path, content, message)\<close>\<close>

definition update_existing_file ::
  "pylib \<Rightarrow> string \<Rightarrow> string \<Rightarrow> string \<Rightarrow> string \<Rightarrow> client \<Rightarrow> world
     \<Rightarrow> pyval \<times> client \<times> world" where
  "update_existing_file L repo path body message c w =
     (let u = base_url @ ''/repos/'' @ username c @ ''/'' @ repo @ ''/contents/'' @ path;
          (get_response, c1, w1) = make_request L ''GET'' u False [] c w
      in case get_response of
           Val _ \<Rightarrow> (PNone, c1, w1)
         | Resp g \<Rightarrow>
             if obj_truthy get_response \<and> status_code g = 200 then
               (case json_body g of
                  None \<Rightarrow> (PNone, c1, w1)
                | Some file_info \<Rightarrow>
                    (case py_item file_info ''sha'' of
                       None \<Rightarrow> (PNone, c1, w1)
                     | Some sha \<Rightarrow>
                         (let data = PDict [(''message'', PStr message),
                                            (''content'', PStr (b64encode L body)),
                                            (''sha'', sha)];
                              (put_response, c2, w2) =
                                make_request L ''PUT'' u False [(''json'', data)] c1 w1
                          in case put_response of
                               Val _ \<Rightarrow> (PNone, c2, w2)
                             | Resp p \<Rightarrow>
                                 if obj_truthy put_response \<and> status_code p = 200 then
                                   (case json_body p of
                                      None \<Rightarrow> (PNone, c2, w2)
                                    | Some result \<Rightarrow> (result, c2, w2))
                                 else (PNone, c2, w2))))
             else (PNone, c1, w1))"

text \<open>\<^verbatim>\<open>upload_file(repo, path, content, message)\<close>\<close>

definition upload_file ::
  "pylib \<Rightarrow> string \<Rightarrow> string \<Rightarrow> string \<Rightarrow> string \<Rightarrow> client \<Rightarrow> world
     \<Rightarrow> pyval \<times> client \<times> world" where
  "upload_file L repo path body message c w =
     (let u = base_url @ ''/repos/'' @ username c @ ''/'' @ repo @ ''/contents/'' @ path;
          data = PDict [(''message'', PStr message), (''content'', PStr (b64encode L body))];
          (resp, c1, w1) = make_request L ''PUT'' u False [(''json'', data)] c w
      in case resp of
           Val _ \<Rightarrow> (PNone, c1, w1)
         | Resp r \<Rightarrow>
             if status_code r = 201 then
               (case json_body r of
                  None \<Rightarrow> (PNone, c1, w1)
                | Some result \<Rightarrow> (result, c1, w1))
             else if status_code r = 422 then
               update_existing_file L repo path body message c1 w1
             else (PNone, c1, w1))"

text \<open>\<^verbatim>\<open>batch_upload_files(repo, files, message)\<close>: one record per file, in order.\<close>

record upload_result =
  path_of :: string
  success :: bool
  result_of :: pyval

fun batch_upload_files ::
  "pylib \<Rightarrow> string \<Rightarrow> (string \<times> string) list \<Rightarrow> string \<Rightarrow> client \<Rightarrow> world
     \<Rightarrow> upload_result list \<times> client \<times> world" where
  "batch_upload_files L repo [] message c w = ([], c, w)"
| "batch_upload_files L repo ((path, body) # files) message c w =
     (let (result, c1, w1) = upload_file L repo path body message c w;
          (results, c2, w2) = batch_upload_files L repo files message c1 w1
      in (\<lparr>path_of = path, success = (result \<noteq> PNone), result_of = result\<rparr> # results,
          c2, w2))"



text \<open>
  \<^verbatim>\<open>_download_from_raw_url(url)\<close>: its own loop of three attempts on
  \<^verbatim>\<open>self.session.get(url, timeout=(10, 60))\<close>, which counts no request. A timeout waits
  \<open>2 ^ attempt + 2\<close> seconds, any other exception \<open>2 ^ attempt + 1\<close>.
\<close>

fun raw_loop :: "string \<Rightarrow> nat list \<Rightarrow> client \<Rightarrow> world \<Rightarrow> string option \<times> world" where
  "raw_loop u [] c w = (None, w)"
| "raw_loop u (attempt # rest) c w =
     (let (out, w1) =
            session_request
              \<lparr>verb = ''GET'', url = u,
               kwargs = [(''timeout'', PTuple [PInt 10, PInt 60])], auth = token c\<rparr> w
      in case out of
           Returned r \<Rightarrow>
             if status_code r = 200 then (Some (content r), w1)
             else if retryable (status_code r) then
               (if attempt < max_retries - 1
                then raw_loop u rest c (sleep (2 ^ attempt + 2) w1)
                else (None, w1))
             else (None, w1)
         | Timeout \<Rightarrow>
             (if attempt < max_retries - 1
              then raw_loop u rest c (sleep (2 ^ attempt + 2) w1)
              else (None, w1))
         | ConnectionError \<Rightarrow>
             (if attempt < max_retries - 1
              then raw_loop u rest c (sleep (2 ^ attempt + 1) w1)
              else (None, w1))
         | OtherException \<Rightarrow>
             (if attempt < max_retries - 1
              then raw_loop u rest c (sleep (2 ^ attempt + 1) w1)
              else (None, w1)))"

definition download_from_raw_url :: "string \<Rightarrow> client \<Rightarrow> world \<Rightarrow> string option \<times> world" where
  "download_from_raw_url u c w = raw_loop u [0..<max_retries] c w"

text \<open>
  \<^verbatim>\<open>download_file(repo, path)\<close>. \<^verbatim>\<open>file_info.get\<close> raises on a body that is no
  dictionary and \<^verbatim>\<open>base64.b64decode\<close> on a payload that is no string; the handler
  returns \<^verbatim>\<open>None\<close>. The session turns the download URL into a string.
\<close>

definition download_file ::
  "pylib \<Rightarrow> string \<Rightarrow> string \<Rightarrow> client \<Rightarrow> world \<Rightarrow> string option \<times> client \<times> world" where
  "download_file L repo path c w =
     (let u = base_url @ ''/repos/'' @ username c @ ''/'' @ repo @ ''/contents/'' @ path;
          (resp, c1, w1) = make_request L ''GET'' u True [] c w
      in case resp of
           Val _ \<Rightarrow> (None, c1, w1)
         | Resp r \<Rightarrow>
             if status_code r \<noteq> 200 then (None, c1, w1)
             else
               (case json_body r of
                  None \<Rightarrow> (None, c1, w1)
                | Some file_info \<Rightarrow>
                    (case py_get file_info ''type'' of
                       None \<Rightarrow> (None, c1, w1)
                     | Some ty \<Rightarrow>
                         if ty = PStr ''file'' then
                           (case py_get file_info ''download_url'' of
                              None \<Rightarrow> (None, c1, w1)
                            | Some download_url \<Rightarrow>
                                if truthy download_url then
                                  (let (data, w2) =
                                         download_from_raw_url (format_str L download_url) c1 w1
                                   in (data, c1, w2))
                                else
                                  (case py_get file_info ''content'' of
                                     None \<Rightarrow> (None, c1, w1)
                                   | Some content_encoded \<Rightarrow>
                                       if truthy content_encoded then
                                         (case content_encoded of
                                            PStr s \<Rightarrow> (b64decode L s, c1, w1)
                                          | _ \<Rightarrow> (None, c1, w1))
                                       else (None, c1, w1)))
                         else (None, c1, w1))))"

text \<open>\<^verbatim>\<open>delete_file(repo, path, sha, message)\<close>\<close>

definition delete_file ::
  "pylib \<Rightarrow> string \<Rightarrow> string \<Rightarrow> string \<Rightarrow> string \<Rightarrow> client \<Rightarrow> world
     \<Rightarrow> bool \<times> client \<times> world" where
  "delete_file L repo path sha message c w =
     (let u = base_url @ ''/repos/'' @ username c @ ''/'' @ repo @ ''/contents/'' @ path;
          data = PDict [(''message'', PStr message), (''sha'', PStr sha)];
          (resp, c1, w1) = make_request L ''DELETE'' u False [(''json'', data)] c w
      in (case resp of Val _ \<Rightarrow> False | Resp r \<Rightarrow> status_code r = 200, c1, w1))"

text \<open>\<^verbatim>\<open>get_file_info(repo, path)\<close>\<close>

definition get_file_info ::
  "pylib \<Rightarrow> string \<Rightarrow> string \<Rightarrow> client \<Rightarrow> world \<Rightarrow> pyval \<times> client \<times> world" where
  "get_file_info L repo path c w =
     (let u = base_url @ ''/repos/'' @ username c @ ''/'' @ repo @ ''/contents/'' @ path;
          (resp, c1, w1) = make_request L ''GET'' u True [] c w
      in (case resp of
            Val _ \<Rightarrow> PNone
          | Resp r \<Rightarrow>
              if status_code r = 200 then
                (case json_body r of
                   None \<Rightarrow> PNone
                 | Some file_info \<Rightarrow>
                     (case py_get file_info ''type'' of
                        None \<Rightarrow> PNone
                      | Some ty \<Rightarrow> if ty = PStr ''file'' then file_info else PNone))
              else PNone,
          c1, w1))"



text \<open>
  \<^verbatim>\<open>get_api_usage_stats\<close>. The hit rate is the integer 0 or the float that Python's true
  division \<^verbatim>\<open>cached_requests / request_count\<close> of the two integers yields. The float is
  not computed here: \<open>FloatDiv a b\<close> stands for the float \<^verbatim>\<open>a / b\<close>, and
  \<open>exact_quotient\<close> is the rational number that float is nearest to.
\<close>

datatype pynum = IntNum int | FloatDiv nat nat

fun exact_quotient :: "pynum \<Rightarrow> rat" where
  "exact_quotient (IntNum i) = of_int i"
| "exact_quotient (FloatDiv a b) = of_nat a / of_nat b"

record usage_stats =
  total_requests :: nat
  cached_total :: nat
  cache_hit_rate :: pynum

definition get_api_usage_stats :: "client \<Rightarrow> usage_stats" where
  "get_api_usage_stats c =
     \<lparr>total_requests = request_count c,
      cached_total = cached_requests c,
      cache_hit_rate =
        (if request_count c > 0 then FloatDiv (cached_requests c) (request_count c)
         else IntNum 0)\<rparr>"

text \<open>\<^verbatim>\<open>clear_cache\<close> empties \<^verbatim>\<open>self.cache\<close>; \<^verbatim>\<open>close\<close> closes the session and nothing else.\<close>

definition clear_cache :: "client \<Rightarrow> client" where
  "clear_cache c = c\<lparr>cache := Map.empty\<rparr>"

definition close :: "client \<Rightarrow> client" where
  "close c = c\<lparr>session_closed := True\<rparr>"

section \<open>A process with several clients\<close>

text \<open>
  The objects of one Python process: the client instances by identity, each with its own
  attributes, and the two dictionaries that \<^verbatim>\<open>cache_result\<close> created for
  \<^verbatim>\<open>get_user_repos\<close> and \<^verbatim>\<open>list_files\<close> when the class was defined.
\<close>

record process =
  instances :: "nat \<Rightarrow> client"
  repos_memo :: memo
  files_memo :: memo

text \<open>A method that is not decorated, called on instance \<open>i\<close>.\<close>

definition on_instance ::
  "nat \<Rightarrow> (client \<Rightarrow> world \<Rightarrow> 'a \<times> client \<times> world) \<Rightarrow> process \<Rightarrow> world
     \<Rightarrow> 'a \<times> process \<times> world" where
  "on_instance i op P w =
     (case op (instances P i) w of
        (res, c', w') \<Rightarrow> (res, P\<lparr>instances := (instances P)(i := c')\<rparr>, w'))"

definition instance_get_user_repos ::
  "pylib \<Rightarrow> nat \<Rightarrow> process \<Rightarrow> world \<Rightarrow> pyval \<times> process \<times> world" where
  "instance_get_user_repos L i P w =
     (case get_user_repos L (repos_memo P) (instances P i) w of
        (res, mem', c', w') \<Rightarrow>
          (res, P\<lparr>instances := (instances P)(i := c'), repos_memo := mem'\<rparr>, w'))"

section \<open>Auxiliary notions for the statements\<close>

text \<open>
  The client after a run of the dispatch loop that made \<open>n\<close> attempts and returned
  \<open>res\<close> at time \<open>t\<close>: \<open>n\<close> more requests counted, and the response stored if it is
  a success of a cached read.
\<close>

definition after_loop :: "string option \<Rightarrow> pyobj \<Rightarrow> real \<Rightarrow> nat \<Rightarrow> client \<Rightarrow> client" where
  "after_loop ck res t n c =
     (case res of
        Resp r \<Rightarrow> store_response ck r t (c\<lparr>request_count := request_count c + n\<rparr>)
      | Val _ \<Rightarrow> c\<lparr>request_count := request_count c + n\<rparr>)"

text \<open>
  The remote side meets the coming exchanges, all of the request \<open>rq\<close>, with the given
  events and durations, one after the other, from the history \<open>h\<close> on.
\<close>

fun answers ::
  "(request list \<Rightarrow> event \<times> real) \<Rightarrow> request list \<Rightarrow> request \<Rightarrow> (event \<times> real) list
     \<Rightarrow> bool" where
  "answers srv h rq [] = True"
| "answers srv h rq (a # as) = (srv (h @ [rq]) = a \<and> answers srv (h @ [rq]) rq as)"

text \<open>
  A sequence of calls of \<^verbatim>\<open>_make_request\<close>, each after some time has passed, and the
  number of them that were served without a call of the session.
\<close>

type_synonym call = "real \<times> string \<times> string \<times> bool \<times> kwargs"

definition advance :: "real \<Rightarrow> world \<Rightarrow> world" where
  "advance t w = w\<lparr>now := now w + t\<rparr>"

fun run_calls :: "pylib \<Rightarrow> call list \<Rightarrow> client \<Rightarrow> world \<Rightarrow> client \<times> world" where
  "run_calls L [] c w = (c, w)"
| "run_calls L ((t, m, u, use_cache, kw) # cs) c w =
     (case make_request L m u use_cache kw c (advance t w) of
        (res, c1, w1) \<Rightarrow> run_calls L cs c1 w1)"

fun cache_served :: "pylib \<Rightarrow> call list \<Rightarrow> client \<Rightarrow> world \<Rightarrow> nat" where
  "cache_served L [] c w = 0"
| "cache_served L ((t, m, u, use_cache, kw) # cs) c w =
     (case make_request L m u use_cache kw c (advance t w) of
        (res, c1, w1) \<Rightarrow>
          (if sent w1 = sent w then 1 else 0) + cache_served L cs c1 w1)"



section \<open>Example environments\<close>

text \<open>
  A remote side that meets the \<open>n\<close>-th exchange it sees with the \<open>n\<close>-th event of a
  script, at once, and with an unexpected exception when the script is used up; and a
  response with a given status and no \<^verbatim>\<open>Retry-After\<close>.
\<close>

definition scripted :: "event list \<Rightarrow> request list \<Rightarrow> event \<times> real" where
  "scripted es h =
     (if length h - 1 < length es then es ! (length h - 1) else Unexpected, 0)"

definition start :: "event list \<Rightarrow> world" where
  "start es = \<lparr>server = scripted es, now = 0, sent = [], wire = [], slept = []\<rparr>"

definition status_only :: "int \<Rightarrow> response" where
  "status_only st = \<lparr>status_code = st, retry_after = False, json_body = None, content = []\<rparr>"

definition with_json :: "int \<Rightarrow> pyval \<Rightarrow> response" where
  "with_json st v =
     \<lparr>status_code = st, retry_after = False, json_body = Some v, content = []\<rparr>"

text \<open>
  Python's \<^verbatim>\<open>str\<close> of the values above, for strings of printable characters: a string
  is quoted with \<^verbatim>\<open>'\<close>, or with \<^verbatim>\<open>"\<close> when it holds a \<^verbatim>\<open>'\<close> and no \<^verbatim>\<open>"\<close>.
\<close>

fun decimal :: "nat \<Rightarrow> string" where
  "decimal n =
     (if n < 10 then [''0123456789'' ! n]
      else decimal (n div 10) @ [''0123456789'' ! (n mod 10)])"

definition escape_char :: "char \<Rightarrow> char \<Rightarrow> string" where
  "escape_char q ch =
     (if ch = CHR 0x5C then [CHR 0x5C, CHR 0x5C]
      else if ch = q then [CHR 0x5C, q]
      else if ch = CHR 0x0A then [CHR 0x5C, CHR ''n'']
      else if ch = CHR 0x0D then [CHR 0x5C, CHR ''r'']
      else if ch = CHR 0x09 then [CHR 0x5C, CHR ''t'']
      else [ch])"

definition repr_str :: "string \<Rightarrow> string" where
  "repr_str s =
     (let q = (if CHR 0x27 \<in> set s \<and> CHR 0x22 \<notin> set s then CHR 0x22 else CHR 0x27)
      in [q] @ concat (map (escape_char q) s) @ [q])"

fun py_repr :: "pyval \<Rightarrow> string" where
  "py_repr PNone = ''None''"
| "py_repr (PBool b) = (if b then ''True'' else ''False'')"
| "py_repr (PInt i) = (if i < 0 then ''-'' @ decimal (nat (- i)) else decimal (nat i))"
| "py_repr (PStr s) = repr_str s"
| "py_repr (PList xs) = ''['' @ join '', '' (map py_repr xs) @ '']''"
| "py_repr (PTuple xs) =
     ''('' @ join '', '' (map py_repr xs) @ (if length xs = 1 then '','' else []) @ '')''"
| "py_repr (PDict kvs) =
     ''{'' @ join '', '' (map (\<lambda>kv. repr_str (fst kv) @ '': '' @ py_repr (snd kv)) kvs) @ ''}''"

text \<open>
  A library for the examples: \<^verbatim>\<open>str\<close> as above, and stand-ins for the digest (the
  identity, which has no collisions) and for base64 (the bytes as they are).
\<close>

definition plain_lib :: pylib where
  "plain_lib =
     \<lparr>md5_hexdigest = (\<lambda>s. s), str_of = py_repr, b64encode = (\<lambda>b. b), b64decode = Some\<rparr>"

text \<open>
  An upload to a path that exists: the create is answered 422, the metadata fetch gives the
  revision hash \<^verbatim>\<open>abc\<close>, the second write succeeds.
\<close>

definition example_url :: string where
  "example_url = base_url @ ''/repos/me/r/contents/f''"





text \<open>
  A download through a direct link: the metadata names the link, the first call of the
  session for the link cannot connect (four tries on the wire), the second gives the bytes.
\<close>

definition link_metadata :: pyval where
  "link_metadata = PDict [(''type'', PStr ''file''), (''download_url'', PStr ''http://raw/f'')]"

definition download_world :: world where
  "download_world =
     start [Answer (with_json 200 link_metadata),
            ConnectTimeout, ConnectTimeout, ConnectTimeout, ConnectTimeout,
            Answer \<lparr>status_code = 200, retry_after = False, json_body = None,
                    content = ''DATA''\<rparr>]"

definition meta_get :: request where
  "meta_get =
     \<lparr>verb = ''GET'', url = example_url,
      kwargs = [(''timeout'', PTuple [PInt 10, PInt 30])], auth = ''t''\<rparr>"

definition raw_get :: request where
  "raw_get =
     \<lparr>verb = ''GET'', url = ''http://raw/f'',
      kwargs = [(''timeout'', PTuple [PInt 10, PInt 60])], auth = ''t''\<rparr>"

definition download_meta :: "pyobj \<times> client \<times> world" where
  "download_meta =
     make_request plain_lib ''GET'' example_url True [] (init ''t'' ''me'') download_world"

text \<open>
  A read, an upload to the same path and a second read, all within the expiry time. The
  server knows the file with revision \<^verbatim>\<open>old\<close> until the second PUT and with revision
  \<^verbatim>\<open>new\<close> after it.
\<close>

definition old_metadata :: pyval where
  "old_metadata = PDict [(''type'', PStr ''file''), (''sha'', PStr ''old'')]"

definition new_metadata :: pyval where
  "new_metadata = PDict [(''type'', PStr ''file''), (''sha'', PStr ''new'')]"

definition stale_world :: world where
  "stale_world =
     start [Answer (with_json 200 old_metadata),
            Answer (status_only 422),
            Answer (with_json 200 old_metadata),
            Answer (with_json 200 new_metadata),
            Answer (with_json 200 new_metadata)]"

definition read_before :: "pyval \<times> client \<times> world" where
  "read_before = get_file_info plain_lib ''r'' ''f'' (init ''t'' ''me'') stale_world"

definition then_upload :: "pyval \<times> client \<times> world" where
  "then_upload =
     upload_file plain_lib ''r'' ''f'' ''fresh'' ''m'' (fst (snd read_before))
       (snd (snd read_before))"

definition read_after :: "pyval \<times> client \<times> world" where
  "read_after =
     get_file_info plain_lib ''r'' ''f'' (fst (snd then_upload)) (snd (snd then_upload))"

text \<open>
  Two clients of two accounts in one process. The server would answer the first listing
  with the repositories of the first account and the second with those of the second.
\<close>

definition two_clients :: process where
  "two_clients =
     \<lparr>instances = (\<lambda>i. if i = 0 then init ''ta'' ''alice'' else init ''tb'' ''bob''),
      repos_memo = Map.empty, files_memo = Map.empty\<rparr>"

definition two_accounts :: world where
  "two_accounts =
     start [Answer (with_json 200 (PList [PStr ''repo-of-alice''])),
            Answer (with_json 200 (PList [PStr ''repo-of-bob'']))]"

definition alice_lists :: "pyval \<times> process \<times> world" where
  "alice_lists = instance_get_user_repos plain_lib 0 two_clients two_accounts"

definition bob_lists :: "pyval \<times> process \<times> world" where
  "bob_lists =
     instance_get_user_repos plain_lib 1 (fst (snd alice_lists)) (snd (snd alice_lists))"

text \<open>
  The same two clients reading the listing through \<^verbatim>\<open>_make_request\<close>, each with its own
  \<^verbatim>\<open>self.cache\<close>.
\<close>

definition alice_reads :: "pyobj \<times> process \<times> world" where
  "alice_reads =
     on_instance 0
       (make_request plain_lib ''GET'' (base_url @ ''/user/repos?per_page=100'') True [])
       two_clients two_accounts"

definition bob_reads :: "pyobj \<times> process \<times> world" where
  "bob_reads =
     on_instance 1
       (make_request plain_lib ''GET'' (base_url @ ''/user/repos?per_page=100'') True [])
       (fst (snd alice_reads)) (snd (snd alice_reads))"







section \<open>Evaluating the examples\<close>

lemma upper_GET: "upper ''GET'' = ''GET''" "upper ''get'' = ''GET''"
  by code_simp+

lemma methods_retryable:
  "method_retryable ''GET''" "method_retryable ''PUT''" "\<not> method_retryable ''PATCH''"
  by code_simp+

lemma plain_key: "cache_key plain_lib u [] = u @ ''{}''"
  by (simp add: cache_key_def plain_lib_def)

lemma adapter_send_numeral:
  "adapter_send (numeral k) rq w =
     (let (ev, w1) = exchange rq w
      in if retried (numeral k) (verb rq) ev then adapter_send (pred_numeral k) rq w1
         else (handed_back (numeral k) (verb rq) ev, w1))"
  unfolding numeral_eq_Suc by simp

lemmas run_simps =
  cache_hit_def init_def start_def default_timeout_def session_request_def retry_total_def
  adapter_send_numeral exchange_def is_retry_def status_forcelist_def scripted_def
  status_only_def with_json_def retryable_def store_response_def Let_def max_retries_def
  sleep_def

section \<open>The session\<close>

lemma retryable_forcelist: "retryable st = (st \<in> set status_forcelist)"
  by (simp add: retryable_def status_forcelist_def)

lemma is_retry_ge_400: "is_retry n m r \<Longrightarrow> 400 \<le> status_code r"
  by (auto simp: is_retry_def status_forcelist_def)

lemma is_retry_not_auth: "is_retry n m r \<Longrightarrow> status_code r \<noteq> 401 \<and> status_code r \<noteq> 403"
  by (auto simp: is_retry_def status_forcelist_def)



lemma adapter_send_effect:
  "adapter_send n rq w = (out, w1) \<Longrightarrow>
     sent w1 = sent w \<and> server w1 = server w \<and> slept w1 = slept w
     \<and> (\<exists>k. 0 < k \<and> k \<le> Suc n \<and> wire w1 = wire w @ replicate k rq)"
proof (induction n arbitrary: w)
  case 0
  then show ?case
    by (auto simp: exchange_def Let_def split: prod.splits intro!: exI [of _ 1])
next
  case (Suc n)
  obtain ev w0 where ex: "exchange rq w = (ev, w0)"
    by (cases "exchange rq w")
  then have w0: "sent w0 = sent w" "server w0 = server w" "slept w0 = slept w"
    "wire w0 = wire w @ [rq]"
    by (auto simp: exchange_def Let_def split: prod.splits)
  show ?case
  proof (cases "retried (Suc n) (verb rq) ev")
    case True
    with Suc.prems ex have "adapter_send n rq w0 = (out, w1)"
      by simp
    from Suc.IH [OF this] obtain k where k: "0 < k" "k \<le> Suc n"
      "wire w1 = wire w0 @ replicate k rq"
      and rest: "sent w1 = sent w0" "server w1 = server w0" "slept w1 = slept w0"
      by blast
    from k w0 have "wire w1 = wire w @ replicate (Suc k) rq"
      by simp
    with k rest w0 show ?thesis
      by (intro conjI exI [of _ "Suc k"]) simp_all
  next
    case False
    with Suc.prems ex w0 show ?thesis
      by (auto intro!: exI [of _ 1])
  qed
qed

lemma session_request_effect:
  assumes "session_request rq w = (out, w1)"
  shows "sent w1 = sent w @ [rq]" and "server w1 = server w" and "slept w1 = slept w"
    and "\<exists>k. 0 < k \<and> k \<le> 4 \<and> wire w1 = wire w @ replicate k rq"
  using adapter_send_effect [of retry_total rq "w\<lparr>sent := sent w @ [rq]\<rparr>" out w1] assms
  by (auto simp: session_request_def retry_total_def)

lemma session_request_direct:
  assumes "server w (wire w @ [rq]) = (ev, dt)"
    and "\<not> retried retry_total (verb rq) ev"
  shows "session_request rq w =
           (handed_back retry_total (verb rq) ev,
            w\<lparr>now := now w + dt, sent := sent w @ [rq], wire := wire w @ [rq]\<rparr>)"
  using assms
  by (simp add: session_request_def retry_total_def adapter_send_numeral exchange_def)

lemma session_request_answer:
  assumes "server w (wire w @ [rq]) = (Answer r, dt)"
    and "\<not> is_retry retry_total (verb rq) r"
  shows "session_request rq w =
           (Returned r, w\<lparr>now := now w + dt, sent := sent w @ [rq], wire := wire w @ [rq]\<rparr>)"
  using session_request_direct [OF assms(1)] assms(2) by simp


text \<open>
  The session never hands back an answer with a forced status to a request with an
  allowed method: it tries again, and raises when no retry is left.
\<close>

lemma adapter_send_never_forced:
  "adapter_send n rq w = (Returned r, w1) \<Longrightarrow> \<not> is_retry 0 (verb rq) r"
proof (induction n arbitrary: w)
  case 0
  obtain ev w0 where "exchange rq w = (ev, w0)"
    by (cases "exchange rq w")
  with 0 show ?case
    by (cases ev) (auto split: if_splits)
next
  case (Suc n)
  obtain ev w0 where ex: "exchange rq w = (ev, w0)"
    by (cases "exchange rq w")
  show ?case
  proof (cases "retried (Suc n) (verb rq) ev")
    case True
    with Suc.prems ex have "adapter_send n rq w0 = (Returned r, w1)"
      by simp
    from Suc.IH [OF this] show ?thesis .
  next
    case False
    with Suc.prems ex show ?thesis
      by (cases ev) (auto simp: is_retry_def split: if_splits)
  qed
qed

lemma session_never_forced:
  assumes "session_request rq w = (Returned r, w1)" and "method_retryable (verb rq)"
  shows "\<not> retryable (status_code r)"
  using adapter_send_never_forced [of retry_total rq "w\<lparr>sent := sent w @ [rq]\<rparr>" r w1] assms
  by (simp add: session_request_def is_retry_def retryable_forcelist)

section \<open>Dispatch: status classes and retries\<close>

lemma attempts_three: "[0..<max_retries] = [0, 1, 2]"
  by (simp add: max_retries_def upt_rec)


lemma store_response_failure [simp]:
  "\<not> status_code r < 400 \<Longrightarrow> store_response ck r t c = c"
  by (simp add: store_response_def split: option.splits)




lemma loop_unfold:
  assumes "request_loop m u kw ck (attempt # rest) c w = (res, c', w')"
  obtains (finished) "c' = after_loop ck res (now w') 1 c"
      "sent w' = sent w @ [\<lparr>verb = m, url = u, kwargs = kw, auth = token c\<rparr>]"
      "server w' = server w" "slept w' = slept w"
      "\<exists>k. 0 < k \<and> k \<le> 4
          \<and> wire w' = wire w @ replicate k \<lparr>verb = m, url = u, kwargs = kw, auth = token c\<rparr>"
    | (again) w1 t where
      "request_loop m u kw ck rest (c\<lparr>request_count := request_count c + 1\<rparr>) (sleep t w1)
       = (res, c', w')"
      "attempt < max_retries - 1"
      "sent w1 = sent w @ [\<lparr>verb = m, url = u, kwargs = kw, auth = token c\<rparr>]"
      "server w1 = server w" "slept w1 = slept w"
      "\<exists>k. 0 < k \<and> k \<le> 4
          \<and> wire w1 = wire w @ replicate k \<lparr>verb = m, url = u, kwargs = kw, auth = token c\<rparr>"
proof -
  let ?rq = "\<lparr>verb = m, url = u, kwargs = kw, auth = token c\<rparr>"
  obtain out w1 where ses: "session_request ?rq w = (out, w1)"
    by (cases "session_request ?rq w")
  note eff = session_request_effect [OF ses]
  show ?thesis
  proof (cases out)
    case (Returned r)
    with assms ses eff that show ?thesis
      by (auto simp: Let_def after_loop_def split: if_splits)
  next
    case Timeout
    with assms ses eff that show ?thesis
      by (auto simp: Let_def after_loop_def split: if_splits)
  next
    case ConnectionError
    with assms ses eff that show ?thesis
      by (auto simp: Let_def after_loop_def split: if_splits)
  next
    case OtherException
    with assms ses eff that show ?thesis
      by (auto simp: Let_def after_loop_def split: if_splits)
  qed
qed

lemma after_loop_Suc:
  "after_loop ck res t n (c\<lparr>request_count := request_count c + 1\<rparr>) = after_loop ck res t (Suc n) c"
  by (simp add: after_loop_def store_response_def split: pyobj.splits option.splits)

lemma request_loop_effect:
  "request_loop m u kw ck as c w = (res, c', w') \<Longrightarrow>
   as = [] \<or> \<not> last as < max_retries - 1 \<Longrightarrow>
     \<exists>n k. n \<le> length as \<and> (as \<noteq> [] \<longrightarrow> 0 < n)
        \<and> c' = after_loop ck res (now w') n c
        \<and> sent w' = sent w @ replicate n \<lparr>verb = m, url = u, kwargs = kw, auth = token c\<rparr>
        \<and> n \<le> k \<and> k \<le> 4 * n
        \<and> wire w' = wire w @ replicate k \<lparr>verb = m, url = u, kwargs = kw, auth = token c\<rparr>
        \<and> length (slept w') = length (slept w) + (n - 1)
        \<and> server w' = server w"
proof (induction as arbitrary: c w)
  case Nil
  then show ?case by (auto simp: after_loop_def)
next
  case (Cons attempt rest)
  let ?rq = "\<lparr>verb = m, url = u, kwargs = kw, auth = token c\<rparr>"
  from Cons.prems(1) show ?case
  proof (cases rule: loop_unfold)
    case finished
    then obtain k where "0 < k" "k \<le> 4" "wire w' = wire w @ replicate k ?rq"
      by blast
    with finished show ?thesis
      by (intro exI [of _ 1] exI [of _ k]) simp
  next
    case (again w1 t)
    then obtain j where j: "0 < j" "j \<le> 4" "wire w1 = wire w @ replicate j ?rq"
      by blast
    from again(2) Cons.prems(2) have rest: "rest \<noteq> []" "\<not> last rest < max_retries - 1"
      by (auto split: if_splits)
    then have "rest = [] \<or> \<not> last rest < max_retries - 1"
      by simp
    from Cons.IH [OF again(1) this] rest(1) obtain n k where n: "n \<le> length rest" "0 < n"
      and c': "c' = after_loop ck res (now w') n (c\<lparr>request_count := request_count c + 1\<rparr>)"
      and s': "sent w' = sent (sleep t w1) @ replicate n ?rq"
      and k: "n \<le> k" "k \<le> 4 * n"
      and wi: "wire w' = wire (sleep t w1) @ replicate k ?rq"
      and sl: "length (slept w') = length (slept (sleep t w1)) + (n - 1)"
      and srv: "server w' = server (sleep t w1)"
      by auto
    from c' have 1: "c' = after_loop ck res (now w') (Suc n) c"
      by (simp only: after_loop_Suc)
    from s' again have 2: "sent w' = sent w @ replicate (Suc n) ?rq"
      by (simp add: sleep_def replicate_app_Cons_same)
    from wi j have 3: "wire w' = wire w @ replicate (j + k) ?rq"
      by (simp add: sleep_def replicate_add)
    from k j have 4: "Suc n \<le> j + k" "j + k \<le> 4 * Suc n"
      by simp_all
    from sl n again have 5: "length (slept w') = length (slept w) + (Suc n - 1)"
      by (simp add: sleep_def)
    from srv again have 6: "server w' = server w"
      by (simp add: sleep_def)
    from n 1 2 3 4 5 6 show ?thesis
      by (intro exI [of _ "Suc n"] exI [of _ "j + k"]) simp
  qed
qed

lemma last_attempt: "[0..<max_retries] = [] \<or> \<not> last [0..<max_retries] < max_retries - 1"
  by (simp add: max_retries_def upt_rec)

lemma make_request_miss:
  "cache_hit c w (if use_cache \<and> upper m = ''GET'' then Some (cache_key L u kw) else None) = None
   \<Longrightarrow> make_request L m u use_cache kw c w =
       request_loop m u (default_timeout kw)
         (if use_cache \<and> upper m = ''GET'' then Some (cache_key L u kw) else None)
         [0..<max_retries] c w"
  by (simp add: make_request_def)

lemma make_request_hit:
  "cache_hit c w (if use_cache \<and> upper m = ''GET'' then Some (cache_key L u kw) else None) = Some v
   \<Longrightarrow> make_request L m u use_cache kw c w =
       (v, c\<lparr>cached_requests := cached_requests c + 1\<rparr>, w)"
  by (simp add: make_request_def)


lemma answers_append:
  "answers srv h rq (xs @ ys) =
     (answers srv h rq xs \<and> answers srv (h @ replicate (length xs) rq) rq ys)"
  by (induction xs arbitrary: h) (simp_all add: replicate_app_Cons_same)





lemma store_response_counts [simp]:
  "request_count (store_response ck r t c) = request_count c"
  "cached_requests (store_response ck r t c) = cached_requests c"
  by (simp_all add: store_response_def split: option.splits)







text \<open>
  C2. A 401 or 403 answer to a physical attempt is returned at once: whatever attempts
  remain in the budget, the loop returns that response after this one attempt, with one
  request more handed to the session and on the wire, one more counted, no sleep and
  nothing written to the cache. The session's adapter does not retry these statuses.
\<close>

theorem auth_failure_not_retried:
  assumes "server w (wire w @ [\<lparr>verb = m, url = u, kwargs = kw, auth = token c\<rparr>])
             = (Answer r, dt)"
    and "status_code r = 401 \<or> status_code r = 403"
  shows "request_loop m u kw ck (attempt # rest) c w =
           (Resp r,
            c\<lparr>request_count := request_count c + 1\<rparr>,
            w\<lparr>now := now w + dt,
              sent := sent w @ [\<lparr>verb = m, url = u, kwargs = kw, auth = token c\<rparr>],
              wire := wire w @ [\<lparr>verb = m, url = u, kwargs = kw, auth = token c\<rparr>]\<rparr>)
       \<and> (\<forall>L use_cache kw0.
             kw = default_timeout kw0 \<and>
             cache_hit c w
               (if use_cache \<and> upper m = ''GET'' then Some (cache_key L u kw0) else None) = None
             \<longrightarrow>
             make_request L m u use_cache kw0 c w =
               (Resp r,
                c\<lparr>request_count := request_count c + 1\<rparr>,
                w\<lparr>now := now w + dt,
                  sent := sent w @ [\<lparr>verb = m, url = u, kwargs = kw, auth = token c\<rparr>],
                  wire := wire w @ [\<lparr>verb = m, url = u, kwargs = kw, auth = token c\<rparr>]\<rparr>))"
proof -
  let ?rq = "\<lparr>verb = m, url = u, kwargs = kw, auth = token c\<rparr>"
  from assms(2) is_retry_not_auth [of retry_total m r] have "\<not> is_retry retry_total (verb ?rq) r"
    by auto
  from session_request_answer [OF assms(1) this]
  have ses: "session_request ?rq w =
               (Returned r, w\<lparr>now := now w + dt, sent := sent w @ [?rq], wire := wire w @ [?rq]\<rparr>)" .
  have loop: "request_loop m u kw ck (attempt # rest) c w =
           (Resp r,
            c\<lparr>request_count := request_count c + 1\<rparr>,
            w\<lparr>now := now w + dt, sent := sent w @ [?rq], wire := wire w @ [?rq]\<rparr>)"
    for ck attempt rest
    using assms(2) ses
    by (auto simp: store_response_def Let_def split: option.splits)
  have "make_request L m u use_cache kw0 c w =
           (Resp r,
            c\<lparr>request_count := request_count c + 1\<rparr>,
            w\<lparr>now := now w + dt, sent := sent w @ [?rq], wire := wire w @ [?rq]\<rparr>)"
    if kw: "kw = default_timeout kw0"
      and miss: "cache_hit c w
               (if use_cache \<and> upper m = ''GET'' then Some (cache_key L u kw0) else None) = None"
    for L use_cache kw0
  proof -
    have "make_request L m u use_cache kw0 c w =
            request_loop m u kw
              (if use_cache \<and> upper m = ''GET'' then Some (cache_key L u kw0) else None)
              (0 # [1, 2]) c w"
      by (simp only: make_request_miss [OF miss] attempts_three kw)
    then show ?thesis by (simp only: loop)
  qed
  with loop show ?thesis by blast
qed

theorem auth_failure_not_retried_witness:
  "server (start [Answer (status_only 403), Answer (status_only 200)])
     (wire (start [Answer (status_only 403), Answer (status_only 200)])
        @ [\<lparr>verb = ''PUT'', url = ''u'', kwargs = default_timeout [],
            auth = token (init ''t'' ''me'')\<rparr>])
     = (Answer (status_only 403), 0)
   \<and> (status_code (status_only 403) = 401 \<or> status_code (status_only 403) = 403)
   \<and> request_loop ''PUT'' ''u'' (default_timeout []) None [0, 1, 2] (init ''t'' ''me'')
       (start [Answer (status_only 403), Answer (status_only 200)])
     = (Resp (status_only 403),
        (init ''t'' ''me'')\<lparr>request_count := 1\<rparr>,
        (start [Answer (status_only 403), Answer (status_only 200)])
          \<lparr>now := 0,
            sent := [\<lparr>verb = ''PUT'', url = ''u'', kwargs = default_timeout [],
                     auth = ''t''\<rparr>],
            wire := [\<lparr>verb = ''PUT'', url = ''u'', kwargs = default_timeout [],
                     auth = ''t''\<rparr>]\<rparr>)
   \<and> make_request plain_lib ''PUT'' ''u'' False [] (init ''t'' ''me'')
       (start [Answer (status_only 403), Answer (status_only 200)])
     = (Resp (status_only 403),
        (init ''t'' ''me'')\<lparr>request_count := 1\<rparr>,
        (start [Answer (status_only 403), Answer (status_only 200)])
          \<lparr>now := 0,
            sent := [\<lparr>verb = ''PUT'', url = ''u'', kwargs = default_timeout [],
                     auth = ''t''\<rparr>],
            wire := [\<lparr>verb = ''PUT'', url = ''u'', kwargs = default_timeout [],
                     auth = ''t''\<rparr>]\<rparr>)"
proof -
  let ?w = "start [Answer (status_only 403), Answer (status_only 200)]"
  let ?rq = "\<lparr>verb = ''PUT'', url = ''u'', kwargs = default_timeout [], auth = ''t''\<rparr>"
  have ans: "server ?w (wire ?w @ [\<lparr>verb = ''PUT'', url = ''u'', kwargs = default_timeout [],
                 auth = token (init ''t'' ''me'')\<rparr>])
             = (Answer (status_only 403), 0)"
    by (simp add: start_def scripted_def)
  have st: "status_code (status_only 403) = 401 \<or> status_code (status_only 403) = 403"
    by (simp add: status_only_def)
  have miss: "cache_hit (init ''t'' ''me'') ?w
                (if False \<and> upper ''PUT'' = ''GET''
                 then Some (cache_key plain_lib ''u'' []) else None) = None"
    by (simp add: cache_hit_def)
  note inst = auth_failure_not_retried [OF ans st, where ck = None and attempt = 0
      and rest = "[1, 2]"]
  from inst have "request_loop ''PUT'' ''u'' (default_timeout []) None [0, 1, 2]
                   (init ''t'' ''me'') ?w
     = (Resp (status_only 403), (init ''t'' ''me'')\<lparr>request_count := 1\<rparr>,
        ?w\<lparr>now := 0, sent := [?rq], wire := [?rq]\<rparr>)"
    by (simp add: init_def start_def)
  moreover from inst miss
  have "make_request plain_lib ''PUT'' ''u'' False [] (init ''t'' ''me'') ?w
     = (Resp (status_only 403), (init ''t'' ''me'')\<lparr>request_count := 1\<rparr>,
        ?w\<lparr>now := 0, sent := [?rq], wire := [?rq]\<rparr>)"
    by (simp add: init_def start_def)
  ultimately show ?thesis using ans st by simp
qed

section \<open>The response cache\<close>

lemma after_loop_fields [simp]:
  "request_count (after_loop ck res t n c) = request_count c + n"
  "cached_requests (after_loop ck res t n c) = cached_requests c"
  "token (after_loop ck res t n c) = token c"
  "username (after_loop ck res t n c) = username c"
  "cache_expiry (after_loop ck res t n c) = cache_expiry c"
  by (simp_all add: after_loop_def store_response_def split: pyobj.splits option.splits)







lemma make_request_uncached:
  assumes "make_request L m u False kw c w = (res, c', w')"
  shows "\<exists>n. 0 < n \<and> n \<le> 3
           \<and> sent w' = sent w @ replicate n
                \<lparr>verb = m, url = u, kwargs = default_timeout kw, auth = token c\<rparr>
           \<and> c' = c\<lparr>request_count := request_count c + n\<rparr> \<and> server w' = server w"
proof -
  from assms have "request_loop m u (default_timeout kw) None [0..<max_retries] c w = (res, c', w')"
    by (simp add: make_request_def cache_hit_def)
  from request_loop_effect [OF this last_attempt] show ?thesis
    by (cases res) (auto simp: max_retries_def after_loop_def store_response_def)
qed



lemma memo_key_none: "memo_key plain_lib [] [] = ''(){}''"
  by (simp add: memo_key_def plain_lib_def)





section \<open>Usage counters\<close>

lemma make_request_counts:
  assumes "make_request L m u use_cache kw c w = (res, c1, w1)"
  shows "(sent w1 = sent w \<and> wire w1 = wire w \<and> slept w1 = slept w
            \<and> request_count c1 = request_count c
            \<and> cached_requests c1 = cached_requests c + 1)
       \<or> (\<exists>n k. 0 < n \<and> n \<le> 3 \<and> length (sent w1) = length (sent w) + n
            \<and> request_count c1 = request_count c + n
            \<and> cached_requests c1 = cached_requests c
            \<and> n \<le> k \<and> k \<le> 4 * n \<and> length (wire w1) = length (wire w) + k
            \<and> length (slept w1) = length (slept w) + (n - 1))"
proof (cases "cache_hit c w
                (if use_cache \<and> upper m = ''GET'' then Some (cache_key L u kw) else None)")
  case None
  from assms have "request_loop m u (default_timeout kw)
         (if use_cache \<and> upper m = ''GET'' then Some (cache_key L u kw) else None)
         [0..<max_retries] c w = (res, c1, w1)"
    by (simp only: make_request_miss [OF None])
  from request_loop_effect [OF this last_attempt] obtain n k where
    "n \<le> length [0..<max_retries]" "0 < n"
    "c1 = after_loop (if use_cache \<and> upper m = ''GET'' then Some (cache_key L u kw) else None)
            res (now w1) n c"
    "sent w1 = sent w @ replicate n \<lparr>verb = m, url = u, kwargs = default_timeout kw,
                                     auth = token c\<rparr>"
    "n \<le> k" "k \<le> 4 * n"
    "wire w1 = wire w @ replicate k \<lparr>verb = m, url = u, kwargs = default_timeout kw,
                                     auth = token c\<rparr>"
    "length (slept w1) = length (slept w) + (n - 1)"
    by (auto simp: max_retries_def)
  then have "0 < n \<and> n \<le> 3 \<and> length (sent w1) = length (sent w) + n
            \<and> request_count c1 = request_count c + n
            \<and> cached_requests c1 = cached_requests c
            \<and> n \<le> k \<and> k \<le> 4 * n \<and> length (wire w1) = length (wire w) + k
            \<and> length (slept w1) = length (slept w) + (n - 1)"
    by (simp add: max_retries_def)
  then show ?thesis by blast
next
  case (Some v)
  from assms show ?thesis
    by (auto simp: make_request_hit [OF Some])
qed

lemma run_calls_counts:
  "run_calls L cs c w = (c', w') \<Longrightarrow>
     \<exists>a k. cached_requests c' = cached_requests c + cache_served L cs c w
        \<and> request_count c' = request_count c + a
        \<and> length (sent w') = length (sent w) + a
        \<and> length (slept w') + length cs = length (slept w) + cache_served L cs c w + a
        \<and> a \<le> k \<and> k \<le> 4 * a \<and> length (wire w') = length (wire w) + k
        \<and> length cs \<le> cache_served L cs c w + a
        \<and> a + 3 * cache_served L cs c w \<le> 3 * length cs"
proof (induction cs arbitrary: c w)
  case Nil
  then show ?case by simp
next
  case (Cons call cs)
  obtain t m u use_cache kw where call: "call = (t, m, u, use_cache, kw)"
    by (cases call)
  obtain res c1 w1 where mr: "make_request L m u use_cache kw c (advance t w) = (res, c1, w1)"
    by (cases "make_request L m u use_cache kw c (advance t w)")
  with Cons.prems call have "run_calls L cs c1 w1 = (c', w')"
    by simp
  from Cons.IH [OF this] obtain a k where a:
    "cached_requests c' = cached_requests c1 + cache_served L cs c1 w1"
    "request_count c' = request_count c1 + a"
    "length (sent w') = length (sent w1) + a"
    "length (slept w') + length cs = length (slept w1) + cache_served L cs c1 w1 + a"
    "a \<le> k" "k \<le> 4 * a" "length (wire w') = length (wire w1) + k"
    "length cs \<le> cache_served L cs c1 w1 + a"
    "a + 3 * cache_served L cs c1 w1 \<le> 3 * length cs"
    by blast
  have served: "cache_served L (call # cs) c w =
          (if sent w1 = sent w then 1 else 0) + cache_served L cs c1 w1"
    using call mr by simp
  from make_request_counts [OF mr] show ?case
  proof
    assume "sent w1 = sent (advance t w) \<and> wire w1 = wire (advance t w)
              \<and> slept w1 = slept (advance t w) \<and> request_count c1 = request_count c
              \<and> cached_requests c1 = cached_requests c + 1"
    with a served show ?thesis
      by (intro exI [of _ a] exI [of _ k]) (simp add: advance_def)
  next
    assume "\<exists>n k. 0 < n \<and> n \<le> 3 \<and> length (sent w1) = length (sent (advance t w)) + n
            \<and> request_count c1 = request_count c + n
            \<and> cached_requests c1 = cached_requests c
            \<and> n \<le> k \<and> k \<le> 4 * n \<and> length (wire w1) = length (wire (advance t w)) + k
            \<and> length (slept w1) = length (slept (advance t w)) + (n - 1)"
    then obtain n j where n: "0 < n" "n \<le> 3" "length (sent w1) = length (sent w) + n"
      "request_count c1 = request_count c + n" "cached_requests c1 = cached_requests c"
      "n \<le> j" "j \<le> 4 * n" "length (wire w1) = length (wire w) + j"
      "length (slept w1) = length (slept w) + (n - 1)"
      by (auto simp: advance_def)
    from n(1,3) have "sent w1 \<noteq> sent w" by auto
    with a served n show ?thesis
      by (intro exI [of _ "n + a"] exI [of _ "j + k"]) simp
  qed
qed

text \<open>
  C6, as the code has it. After \<open>M\<close> calls of \<^verbatim>\<open>_make_request\<close> on a fresh client, of which
  \<open>K\<close> were served from the cache, the snapshot reports \<open>K\<close> cached requests and as total
  the number of calls of \<^verbatim>\<open>session.request\<close>. That total is \<open>M - K\<close> plus the number of
  retries of the loop, each of which follows a sleep (so it is \<open>M - K\<close> when no call was
  retried by the loop), and lies between \<open>M - K\<close> and \<open>3 (M - K)\<close>; every counted call
  puts between one and four requests on the wire. The hit rate is the float \<open>K / total\<close>
  (not \<open>K / M\<close>), and the integer 0 when the total is 0.
\<close>

theorem usage_accounting:
  assumes "run_calls L cs (init tok user) w = (c', w')"
  shows "cached_total (get_api_usage_stats c') = cache_served L cs (init tok user) w
       \<and> length (sent w') = length (sent w) + total_requests (get_api_usage_stats c')
       \<and> length (slept w') + length cs =
           length (slept w) + cache_served L cs (init tok user) w
             + total_requests (get_api_usage_stats c')
       \<and> length cs \<le> cache_served L cs (init tok user) w + total_requests (get_api_usage_stats c')
       \<and> total_requests (get_api_usage_stats c') + 3 * cache_served L cs (init tok user) w
           \<le> 3 * length cs
       \<and> length (wire w) + total_requests (get_api_usage_stats c') \<le> length (wire w')
       \<and> length (wire w') \<le> length (wire w) + 4 * total_requests (get_api_usage_stats c')
       \<and> cache_hit_rate (get_api_usage_stats c') =
           (if total_requests (get_api_usage_stats c') = 0 then IntNum 0
            else FloatDiv (cache_served L cs (init tok user) w)
                   (total_requests (get_api_usage_stats c')))"
  using run_calls_counts [OF assms]
  by (auto simp: get_api_usage_stats_def init_def)

text \<open>
  Two reads of one URL, the second from the cache: \<open>M = 2\<close>, \<open>K = 1\<close>, and the
  reported hit rate is the float \<open>1 / 1\<close>, not \<open>K / M = 1 / 2\<close>. One read whose first
  answer is a 503: one request counted, two on the wire. One read whose connection times
  out four times before it is answered: \<open>M - K = 1\<close>, two requests counted, five on the
  wire.
\<close>

theorem hit_rate_counterexample:
  "(case run_calls plain_lib [(0, ''GET'', ''u'', True, []), (1, ''GET'', ''u'', True, [])]
           (init ''t'' ''me'') (start [Answer (with_json 200 (PStr ''x''))]) of
      (c', w') \<Rightarrow>
        get_api_usage_stats c' =
          \<lparr>total_requests = 1, cached_total = 1, cache_hit_rate = FloatDiv 1 1\<rparr>
        \<and> exact_quotient (cache_hit_rate (get_api_usage_stats c')) = 1
        \<and> length (sent w') = 1)
   \<and> cache_served plain_lib [(0, ''GET'', ''u'', True, []), (1, ''GET'', ''u'', True, [])]
           (init ''t'' ''me'') (start [Answer (with_json 200 (PStr ''x''))]) = 1
   \<and> (case run_calls plain_lib [(0, ''GET'', ''u'', True, [])] (init ''t'' ''me'')
           (start [Answer (status_only 503), Answer (with_json 200 (PStr ''x''))]) of
      (c', w') \<Rightarrow>
        total_requests (get_api_usage_stats c') = 1 \<and> cached_total (get_api_usage_stats c') = 0
        \<and> length (sent w') = 1 \<and> length (wire w') = 2)
   \<and> (case run_calls plain_lib [(0, ''GET'', ''u'', True, [])] (init ''t'' ''me'')
           (start [ConnectTimeout, ConnectTimeout, ConnectTimeout, ConnectTimeout,
                   Answer (with_json 200 (PStr ''x''))]) of
      (c', w') \<Rightarrow>
        total_requests (get_api_usage_stats c') = 2 \<and> cached_total (get_api_usage_stats c') = 0
        \<and> length (sent w') = 2 \<and> length (wire w') = 5 \<and> slept w' = [2])"
  unfolding make_request_def attempts_three run_calls.simps cache_served.simps
  by (simp add: run_simps upper_GET plain_key advance_def get_api_usage_stats_def
      methods_retryable)

theorem usage_accounting_witness:
  "run_calls plain_lib [(0, ''GET'', ''u'', True, []), (1, ''GET'', ''u'', True, [])]
     (init ''t'' ''me'') (start [Answer (status_only 503), Answer (with_json 200 (PStr ''x''))])
   = ((init ''t'' ''me'')
        \<lparr>cache := [''u{}'' \<mapsto> (Resp (with_json 200 (PStr ''x'')), 0)],
          request_count := 1, cached_requests := 1\<rparr>,
      (start [Answer (status_only 503), Answer (with_json 200 (PStr ''x''))])
        \<lparr>now := 1,
          sent := [\<lparr>verb = ''GET'', url = ''u'',
                    kwargs = [(''timeout'', PTuple [PInt 10, PInt 30])], auth = ''t''\<rparr>],
          wire := [\<lparr>verb = ''GET'', url = ''u'',
                    kwargs = [(''timeout'', PTuple [PInt 10, PInt 30])], auth = ''t''\<rparr>,
                   \<lparr>verb = ''GET'', url = ''u'',
                    kwargs = [(''timeout'', PTuple [PInt 10, PInt 30])], auth = ''t''\<rparr>]\<rparr>)
   \<and> cache_served plain_lib [(0, ''GET'', ''u'', True, []), (1, ''GET'', ''u'', True, [])]
       (init ''t'' ''me'') (start [Answer (status_only 503), Answer (with_json 200 (PStr ''x''))])
     = 1
   \<and> get_api_usage_stats
       ((init ''t'' ''me'')
          \<lparr>cache := [''u{}'' \<mapsto> (Resp (with_json 200 (PStr ''x'')), 0)],
            request_count := 1, cached_requests := 1\<rparr>)
     = \<lparr>total_requests = 1, cached_total = 1, cache_hit_rate = FloatDiv 1 1\<rparr>"
proof -
  let ?cs = "[(0::real, ''GET'', ''u'', True, []), (1, ''GET'', ''u'', True, [])]"
  let ?w = "start [Answer (status_only 503), Answer (with_json 200 (PStr ''x''))]"
  let ?rq = "\<lparr>verb = ''GET'', url = ''u'',
                    kwargs = [(''timeout'', PTuple [PInt 10, PInt 30])], auth = ''t''\<rparr>"
  let ?c' = "(init ''t'' ''me'')
        \<lparr>cache := [''u{}'' \<mapsto> (Resp (with_json 200 (PStr ''x'')), 0::real)],
          request_count := 1, cached_requests := 1\<rparr>"
  have run: "run_calls plain_lib ?cs (init ''t'' ''me'') ?w
               = (?c', ?w\<lparr>now := 1, sent := [?rq], wire := [?rq, ?rq]\<rparr>)"
    unfolding make_request_def attempts_three run_calls.simps
    by (simp add: run_simps upper_GET plain_key advance_def methods_retryable)
  have served: "cache_served plain_lib ?cs (init ''t'' ''me'') ?w = 1"
    unfolding make_request_def attempts_three cache_served.simps
    by (simp add: run_simps upper_GET plain_key advance_def methods_retryable)
  from usage_accounting [OF run] run served show ?thesis
    by (simp add: get_api_usage_stats_def init_def del: cache_served.simps run_calls.simps)
qed

section \<open>Writing files\<close>



lemma upload_conflict:
  assumes "make_request L ''PUT''
             (base_url @ ''/repos/'' @ username c @ ''/'' @ repo @ ''/contents/'' @ path) False
             [(''json'', PDict [(''message'', PStr message),
                                (''content'', PStr (b64encode L body))])] c w
           = (Resp r, c1, w1)"
    and "status_code r = 422"
  shows "upload_file L repo path body message c w =
           update_existing_file L repo path body message c1 w1"
  using assms by (simp add: upload_file_def)


lemma update_written:
  assumes "make_request L ''GET''
             (base_url @ ''/repos/'' @ username c1 @ ''/'' @ repo @ ''/contents/'' @ path) False []
             c1 w1 = (Resp gr, c2, w2)"
    and "status_code gr = 200" and "json_body gr = Some info"
    and "py_item info ''sha'' = Some sha"
    and "make_request L ''PUT''
           (base_url @ ''/repos/'' @ username c1 @ ''/'' @ repo @ ''/contents/'' @ path) False
           [(''json'', PDict [(''message'', PStr message),
                              (''content'', PStr (b64encode L body)),
                              (''sha'', sha)])] c2 w2
         = (p, c3, w3)"
  shows "update_existing_file L repo path body message c1 w1 =
           (case p of
              Val _ \<Rightarrow> PNone
            | Resp pr \<Rightarrow>
                if status_code pr = 200
                then (case json_body pr of None \<Rightarrow> PNone | Some res \<Rightarrow> res)
                else PNone,
            c3, w3)"
  using assms
  by (cases p) (auto simp: update_existing_file_def split: option.splits)






section \<open>Reading files\<close>

lemma raw_loop_unfold:
  assumes "raw_loop u (attempt # rest) c w = (data, w')"
  obtains (finished)
      "sent w' = sent w @ [\<lparr>verb = ''GET'', url = u,
                            kwargs = [(''timeout'', PTuple [PInt 10, PInt 60])],
                            auth = token c\<rparr>]"
      "server w' = server w"
    | (again) w1 t where
      "raw_loop u rest c (sleep t w1) = (data, w')"
      "sent w1 = sent w @ [\<lparr>verb = ''GET'', url = u,
                            kwargs = [(''timeout'', PTuple [PInt 10, PInt 60])],
                            auth = token c\<rparr>]"
      "server w1 = server w"
proof -
  let ?rq = "\<lparr>verb = ''GET'', url = u,
              kwargs = [(''timeout'', PTuple [PInt 10, PInt 60])], auth = token c\<rparr>"
  obtain out w1 where ses: "session_request ?rq w = (out, w1)"
    by (cases "session_request ?rq w")
  note eff = session_request_effect(1,2) [OF ses]
  show ?thesis
  proof (cases out)
    case (Returned r)
    with assms ses eff that show ?thesis
      by (auto simp: Let_def split: if_splits)
  next
    case Timeout
    with assms ses eff that show ?thesis
      by (auto simp: Let_def split: if_splits)
  next
    case ConnectionError
    with assms ses eff that show ?thesis
      by (auto simp: Let_def split: if_splits)
  next
    case OtherException
    with assms ses eff that show ?thesis
      by (auto simp: Let_def split: if_splits)
  qed
qed

lemma raw_loop_effect:
  "raw_loop u as c w = (data, w') \<Longrightarrow>
     \<exists>n. n \<le> length as \<and> (as \<noteq> [] \<longrightarrow> 0 < n)
        \<and> sent w' = sent w @ replicate n
             \<lparr>verb = ''GET'', url = u,
              kwargs = [(''timeout'', PTuple [PInt 10, PInt 60])], auth = token c\<rparr>
        \<and> server w' = server w"
proof (induction as arbitrary: w)
  case Nil
  then show ?case by auto
next
  case (Cons attempt rest)
  let ?rq = "\<lparr>verb = ''GET'', url = u,
              kwargs = [(''timeout'', PTuple [PInt 10, PInt 60])], auth = token c\<rparr>"
  from Cons.prems show ?case
  proof (cases rule: raw_loop_unfold)
    case finished
    then show ?thesis by (intro exI [of _ 1]) simp
  next
    case (again w1 t)
    from Cons.IH [OF again(1)] again(2,3) obtain n where n: "n \<le> length rest"
      and s': "sent w' = (sent w @ [?rq]) @ replicate n ?rq"
      and "server w' = server w"
      by (auto simp: sleep_def)
    moreover from s' have "sent w' = sent w @ replicate (Suc n) ?rq"
      by (simp add: replicate_app_Cons_same)
    ultimately show ?thesis by (intro exI [of _ "Suc n"]) simp
  qed
qed

lemma raw_first_success:
  assumes "server w (wire w @ [\<lparr>verb = ''GET'', url = u,
                      kwargs = [(''timeout'', PTuple [PInt 10, PInt 60])], auth = token c\<rparr>])
           = (Answer r, dt)"
    and "status_code r = 200"
  shows "download_from_raw_url u c w =
           (Some (content r),
            w\<lparr>now := now w + dt,
              sent := sent w @ [\<lparr>verb = ''GET'', url = u,
                      kwargs = [(''timeout'', PTuple [PInt 10, PInt 60])], auth = token c\<rparr>],
              wire := wire w @ [\<lparr>verb = ''GET'', url = u,
                      kwargs = [(''timeout'', PTuple [PInt 10, PInt 60])], auth = token c\<rparr>]\<rparr>)"
proof -
  let ?rq = "\<lparr>verb = ''GET'', url = u,
              kwargs = [(''timeout'', PTuple [PInt 10, PInt 60])], auth = token c\<rparr>"
  from assms(2) is_retry_ge_400 [of retry_total "verb ?rq" r]
  have "\<not> is_retry retry_total (verb ?rq) r"
    by auto
  from session_request_answer [OF assms(1) this] assms(2) show ?thesis
    unfolding download_from_raw_url_def attempts_three by simp
qed

text \<open>
  C7. Let the metadata fetch of \<^verbatim>\<open>download_file\<close> return 200 with a JSON dictionary.
  If its \<^verbatim>\<open>type\<close> is not \<^verbatim>\<open>file\<close>, the call fails in the state the metadata fetch
  left: the session is not called again. If it is a file with a non-empty
  \<^verbatim>\<open>download_url\<close>, the result is that of \<^verbatim>\<open>_download_from_raw_url\<close> on the link:
  between one and three GETs of the link handed to the session, whatever the metadata
  fetch used of its own budget, and the bytes of the answer when the link answers 200. If
  the link is missing or empty and the inline \<^verbatim>\<open>content\<close> is a non-empty string, the
  result is its base64 decoding, with no further call of the session.
\<close>

theorem download_file_paths:
  assumes u: "u = base_url @ ''/repos/'' @ username c @ ''/'' @ repo @ ''/contents/'' @ path"
    and meta: "make_request L ''GET'' u True [] c w = (Resp r, c1, w1)"
    and ok: "status_code r = 200"
    and info: "json_body r = Some info"
    and ty: "py_get info ''type'' = Some ty"
  shows "(ty \<noteq> PStr ''file'' \<longrightarrow> download_file L repo path c w = (None, c1, w1))
       \<and> (\<forall>link. ty = PStr ''file'' \<and> py_get info ''download_url'' = Some link \<and> truthy link \<longrightarrow>
            (case download_from_raw_url (format_str L link) c1 w1 of
               (data, w2) \<Rightarrow>
                 download_file L repo path c w = (data, c1, w2)
                 \<and> (\<exists>n. 0 < n \<and> n \<le> 3 \<and>
                      sent w2 = sent w1 @ replicate n
                        \<lparr>verb = ''GET'', url = format_str L link,
                         kwargs = [(''timeout'', PTuple [PInt 10, PInt 60])],
                         auth = token c1\<rparr>))
            \<and> (\<forall>raw dt. server w1 (wire w1 @ [\<lparr>verb = ''GET'', url = format_str L link,
                              kwargs = [(''timeout'', PTuple [PInt 10, PInt 60])],
                              auth = token c1\<rparr>]) = (Answer raw, dt)
                          \<and> status_code raw = 200 \<longrightarrow>
                  fst (download_file L repo path c w) = Some (content raw)))
       \<and> (\<forall>link enc. ty = PStr ''file'' \<and> py_get info ''download_url'' = Some link \<and> \<not> truthy link
            \<and> py_get info ''content'' = Some (PStr enc) \<and> enc \<noteq> [] \<longrightarrow>
            download_file L repo path c w = (b64decode L enc, c1, w1))"
proof (intro conjI allI impI, goal_cases)
  case 1
  with meta ok info ty show ?case
    unfolding u by (simp add: download_file_def)
next
  case (2 link)
  obtain data w2 where raw: "download_from_raw_url (format_str L link) c1 w1 = (data, w2)"
    by (cases "download_from_raw_url (format_str L link) c1 w1")
  from raw have "raw_loop (format_str L link) [0..<max_retries] c1 w1 = (data, w2)"
    by (simp add: download_from_raw_url_def)
  from raw_loop_effect [OF this]
  have "\<exists>n. 0 < n \<and> n \<le> 3 \<and>
          sent w2 = sent w1 @ replicate n
            \<lparr>verb = ''GET'', url = format_str L link,
             kwargs = [(''timeout'', PTuple [PInt 10, PInt 60])], auth = token c1\<rparr>"
    by (auto simp: max_retries_def)
  moreover from 2 meta ok info ty raw
  have "download_file L repo path c w = (data, c1, w2)"
    unfolding u by (simp add: download_file_def)
  ultimately show ?case using raw by simp
next
  case (3 link raw dt)
  then have "download_from_raw_url (format_str L link) c1 w1 =
           (Some (content raw),
            w1\<lparr>now := now w1 + dt,
              sent := sent w1 @ [\<lparr>verb = ''GET'', url = format_str L link,
                      kwargs = [(''timeout'', PTuple [PInt 10, PInt 60])], auth = token c1\<rparr>],
              wire := wire w1 @ [\<lparr>verb = ''GET'', url = format_str L link,
                      kwargs = [(''timeout'', PTuple [PInt 10, PInt 60])], auth = token c1\<rparr>]\<rparr>)"
    by (auto intro: raw_first_success)
  with 3 meta ok info ty show ?case
    unfolding u by (simp add: download_file_def)
next
  case (4 link enc)
  with meta ok info ty show ?case
    unfolding u by (simp add: download_file_def)
qed

lemma download_meta_eval:
  "download_meta =
     (Resp (with_json 200 link_metadata),
      (init ''t'' ''me'')
        \<lparr>cache := [example_url @ ''{}'' \<mapsto> (Resp (with_json 200 link_metadata), 0)],
          request_count := 1\<rparr>,
      download_world\<lparr>sent := [meta_get], wire := [meta_get]\<rparr>)"
  unfolding download_meta_def make_request_def attempts_three
  by (simp add: run_simps download_world_def upper_GET plain_key meta_get_def)

lemma download_raw_eval:
  "download_from_raw_url ''http://raw/f'' (fst (snd download_meta)) (snd (snd download_meta)) =
     (Some ''DATA'',
      download_world
        \<lparr>now := 3, sent := [meta_get, raw_get, raw_get],
          wire := [meta_get, raw_get, raw_get, raw_get, raw_get, raw_get], slept := [3]\<rparr>)"
  unfolding download_meta_eval download_from_raw_url_def attempts_three
  by (simp add: run_simps download_world_def raw_get_def)

theorem download_file_paths_witness:
  "fst download_meta = Resp (with_json 200 link_metadata)
   \<and> status_code (with_json 200 link_metadata) = 200
   \<and> json_body (with_json 200 link_metadata) = Some link_metadata
   \<and> py_get link_metadata ''type'' = Some (PStr ''file'')
   \<and> py_get link_metadata ''download_url'' = Some (PStr ''http://raw/f'')
   \<and> truthy (PStr ''http://raw/f'')
   \<and> download_file plain_lib ''r'' ''f'' (init ''t'' ''me'') download_world =
       (Some ''DATA'', fst (snd download_meta),
        download_world
          \<lparr>now := 3, sent := [meta_get, raw_get, raw_get],
            wire := [meta_get, raw_get, raw_get, raw_get, raw_get, raw_get], slept := [3]\<rparr>)"
proof -
  have u: "example_url =
        base_url @ ''/repos/'' @ username (init ''t'' ''me'') @ ''/'' @ ''r'' @ ''/contents/'' @ ''f''"
    by (simp add: example_url_def init_def)
  have meta: "make_request plain_lib ''GET'' example_url True [] (init ''t'' ''me'') download_world
     = (Resp (with_json 200 link_metadata), fst (snd download_meta), snd (snd download_meta))"
    unfolding download_meta_def [symmetric] by (simp add: download_meta_eval)
  have ok: "status_code (with_json 200 link_metadata) = 200"
    and info: "json_body (with_json 200 link_metadata) = Some link_metadata"
    by (simp_all add: with_json_def)
  have ty: "py_get link_metadata ''type'' = Some (PStr ''file'')"
    and link: "py_get link_metadata ''download_url'' = Some (PStr ''http://raw/f'')"
    by (simp_all add: link_metadata_def)
  from download_file_paths [OF u meta ok info ty]
  have "\<And>link. \<lbrakk>py_get link_metadata ''download_url'' = Some link; truthy link\<rbrakk> \<Longrightarrow>
          (case download_from_raw_url (format_str plain_lib link)
                  (fst (snd download_meta)) (snd (snd download_meta)) of
             (data, w2) \<Rightarrow>
               download_file plain_lib ''r'' ''f'' (init ''t'' ''me'') download_world
                 = (data, fst (snd download_meta), w2))"
    by (auto split: prod.splits)
  from this [OF link] have "download_file plain_lib ''r'' ''f'' (init ''t'' ''me'') download_world =
       (Some ''DATA'', fst (snd download_meta),
        download_world
          \<lparr>now := 3, sent := [meta_get, raw_get, raw_get],
            wire := [meta_get, raw_get, raw_get, raw_get, raw_get, raw_get], slept := [3]\<rparr>)"
    by (simp add: format_str_def download_raw_eval)
  with ok info ty link show ?thesis
    by (simp add: download_meta_eval)
qed

section \<open>Exceptions\<close>





section \<open>Invalidation\<close>

lemma get_file_info_file:
  assumes "make_request L ''GET''
             (base_url @ ''/repos/'' @ username c @ ''/'' @ repo @ ''/contents/'' @ path) True []
             c w = (Resp r, c1, w1)"
    and "status_code r = 200" and "json_body r = Some info"
    and "py_get info ''type'' = Some (PStr ''file'')"
  shows "get_file_info L repo path c w = (info, c1, w1)"
  using assms by (simp add: get_file_info_def)

lemma example_url_of:
  "username c = ''me'' \<Longrightarrow>
     base_url @ ''/repos/'' @ username c @ ''/'' @ ''r'' @ ''/contents/'' @ ''f'' = example_url"
  by (simp add: example_url_def)

lemma uncached_keeps_cache:
  "make_request L m u False kw c w = (res, c', w') \<Longrightarrow>
     cache c' = cache c \<and> username c' = username c"
  by (drule make_request_uncached) auto

lemma update_keeps_cache:
  "cache (fst (snd (update_existing_file L repo path body message c w))) = cache c"
  by (auto simp: update_existing_file_def Let_def
      split: prod.splits pyobj.splits option.splits
      dest!: uncached_keeps_cache)

lemma writes_keep_cache:
  "cache (fst (snd (upload_file L repo path body message c w))) = cache c"
  "cache (fst (snd (delete_file L repo path sha message c w))) = cache c"
  using update_keeps_cache
  by (auto simp: upload_file_def delete_file_def Let_def
      split: prod.splits pyobj.splits option.splits
      dest!: uncached_keeps_cache)

text \<open>
  C4 at a concrete run: the file is read (and cached), a new version is uploaded with
  success, and the file is read again at once. The second read returns the metadata of
  before the upload, with the old revision hash, and sends nothing, although the server
  would now answer with the new revision.
\<close>

theorem stale_read_after_upload:
  "fst read_before = old_metadata
   \<and> fst then_upload = new_metadata
   \<and> fst read_after = old_metadata
   \<and> sent (snd (snd read_after)) = sent (snd (snd then_upload))
   \<and> length (sent (snd (snd read_after))) = 4
   \<and> now (snd (snd read_after)) = 0
   \<and> server stale_world
        (wire (snd (snd read_after))
           @ [\<lparr>verb = ''GET'', url = example_url,
                kwargs = [(''timeout'', PTuple [PInt 10, PInt 30])], auth = ''t''\<rparr>])
      = (Answer (with_json 200 new_metadata), 0)"
proof -
  let ?get = "\<lparr>verb = ''GET'', url = example_url,
               kwargs = [(''timeout'', PTuple [PInt 10, PInt 30])], auth = ''t''\<rparr>"
  let ?put0 = "\<lparr>verb = ''PUT'', url = example_url,
          kwargs = [(''json'', PDict [(''message'', PStr ''m''), (''content'', PStr ''fresh'')]),
                    (''timeout'', PTuple [PInt 10, PInt 30])],
          auth = ''t''\<rparr>"
  let ?put1 = "\<lparr>verb = ''PUT'', url = example_url,
          kwargs = [(''json'', PDict [(''message'', PStr ''m''), (''content'', PStr ''fresh''),
                                      (''sha'', PStr ''old'')]),
                    (''timeout'', PTuple [PInt 10, PInt 30])],
          auth = ''t''\<rparr>"
  let ?cached = "[example_url @ ''{}'' \<mapsto> (Resp (with_json 200 old_metadata), 0::real)]"
  let ?c1 = "(init ''t'' ''me'')\<lparr>cache := ?cached, request_count := 1\<rparr>"
  let ?c2 = "(init ''t'' ''me'')\<lparr>cache := ?cached, request_count := 2\<rparr>"
  let ?c3 = "(init ''t'' ''me'')\<lparr>cache := ?cached, request_count := 3\<rparr>"
  let ?c4 = "(init ''t'' ''me'')\<lparr>cache := ?cached, request_count := 4\<rparr>"
  let ?c5 = "(init ''t'' ''me'')\<lparr>cache := ?cached, request_count := 4, cached_requests := 1\<rparr>"
  let ?w1 = "stale_world\<lparr>sent := [?get], wire := [?get]\<rparr>"
  let ?w2 = "stale_world\<lparr>sent := [?get, ?put0], wire := [?get, ?put0]\<rparr>"
  let ?w3 = "stale_world\<lparr>sent := [?get, ?put0, ?get], wire := [?get, ?put0, ?get]\<rparr>"
  let ?w4 = "stale_world\<lparr>sent := [?get, ?put0, ?get, ?put1],
                          wire := [?get, ?put0, ?get, ?put1]\<rparr>"
  have names: "username (init ''t'' ''me'') = ''me''" "username ?c1 = ''me''"
    "username ?c4 = ''me''"
    by (simp_all add: init_def)
  have m1: "make_request plain_lib ''GET'' example_url True [] (init ''t'' ''me'') stale_world
              = (Resp (with_json 200 old_metadata), ?c1, ?w1)"
    unfolding make_request_def attempts_three
    by (simp add: run_simps stale_world_def upper_GET plain_key)
  have m2: "make_request plain_lib ''PUT'' example_url False
              [(''json'', PDict [(''message'', PStr ''m''),
                                 (''content'', PStr (b64encode plain_lib ''fresh''))])] ?c1 ?w1
              = (Resp (status_only 422), ?c2, ?w2)"
    unfolding make_request_def attempts_three
    by (simp add: run_simps stale_world_def plain_lib_def)
  have m3: "make_request plain_lib ''GET'' example_url False [] ?c2 ?w2
              = (Resp (with_json 200 old_metadata), ?c3, ?w3)"
    unfolding make_request_def attempts_three
    by (simp add: run_simps stale_world_def)
  have m4: "make_request plain_lib ''PUT'' example_url False
              [(''json'', PDict [(''message'', PStr ''m''),
                                 (''content'', PStr (b64encode plain_lib ''fresh'')),
                                 (''sha'', PStr ''old'')])] ?c3 ?w3
              = (Resp (with_json 200 new_metadata), ?c4, ?w4)"
    unfolding make_request_def attempts_three
    by (simp add: run_simps stale_world_def plain_lib_def)
  have m5: "make_request plain_lib ''GET'' example_url True [] ?c4 ?w4
              = (Resp (with_json 200 old_metadata), ?c5, ?w4)"
    unfolding make_request_def
    by (simp add: run_simps stale_world_def upper_GET plain_key)
  have old: "status_code (with_json 200 old_metadata) = 200"
    "json_body (with_json 200 old_metadata) = Some old_metadata"
    "py_get old_metadata ''type'' = Some (PStr ''file'')"
    "py_item old_metadata ''sha'' = Some (PStr ''old'')"
    by (simp_all add: with_json_def old_metadata_def)
  have before: "read_before = (old_metadata, ?c1, ?w1)"
    unfolding read_before_def
    by (rule get_file_info_file [OF _ old(1,2,3)])
      (simp only: example_url_of [OF names(1)] m1)
  have "then_upload = update_existing_file plain_lib ''r'' ''f'' ''fresh'' ''m'' ?c2 ?w2"
    unfolding then_upload_def before fst_conv snd_conv
    by (rule upload_conflict [where r = "status_only 422"])
      (simp_all only: example_url_of [OF names(2)] m2, simp add: status_only_def)
  also have "\<dots> = (new_metadata, ?c4, ?w4)"
  proof -
    have n2: "username ?c2 = ''me''" by (simp add: init_def)
    have g: "make_request plain_lib ''GET''
               (base_url @ ''/repos/'' @ username ?c2 @ ''/'' @ ''r'' @ ''/contents/'' @ ''f'')
               False [] ?c2 ?w2
             = (Resp (with_json 200 old_metadata), ?c3, ?w3)"
      by (simp only: example_url_of [OF n2] m3)
    have p: "make_request plain_lib ''PUT''
               (base_url @ ''/repos/'' @ username ?c2 @ ''/'' @ ''r'' @ ''/contents/'' @ ''f'')
               False
               [(''json'', PDict [(''message'', PStr ''m''),
                                  (''content'', PStr (b64encode plain_lib ''fresh'')),
                                  (''sha'', PStr ''old'')])] ?c3 ?w3
             = (Resp (with_json 200 new_metadata), ?c4, ?w4)"
      by (simp only: example_url_of [OF n2] m4)
    show ?thesis
      by (simp only: update_written [OF g old(1,2,4) p]) (simp add: with_json_def)
  qed
  finally have upload: "then_upload = (new_metadata, ?c4, ?w4)" .
  have after: "read_after = (old_metadata, ?c5, ?w4)"
    unfolding read_after_def upload fst_conv snd_conv
    by (rule get_file_info_file [OF _ old(1,2,3)])
      (simp only: example_url_of [OF names(3)] m5)
  show ?thesis
    unfolding before upload after
    by (simp add: stale_world_def start_def scripted_def)
qed

section \<open>Ownership\<close>

text \<open>
  C9 at a concrete run: two clients of two accounts in one process. The memo of
  \<^verbatim>\<open>get_user_repos\<close> belongs to the decorated function, not to a client: after the first
  client has listed its repositories, the second client is given the same list without a
  request of its own, where the server would have answered its request with the
  repositories of its own account. Read through \<^verbatim>\<open>_make_request\<close>, whose cache is an
  attribute of the instance, the same listing is fetched by each client with its own
  token, and each gets the repositories of its account. The first client, once closed,
  still holds its cached response and its count.
\<close>

theorem memo_shared_between_instances:
  "fst alice_lists = PList [PStr ''repo-of-alice'']
   \<and> fst bob_lists = PList [PStr ''repo-of-alice'']
   \<and> sent (snd (snd bob_lists)) =
        [\<lparr>verb = ''GET'', url = base_url @ ''/user/repos?per_page=100'',
          kwargs = [(''timeout'', PTuple [PInt 10, PInt 30])], auth = ''ta''\<rparr>]
   \<and> request_count (instances (fst (snd bob_lists)) 1) = 0
   \<and> cached_requests (instances (fst (snd bob_lists)) 1) = 0
   \<and> server two_accounts
        (wire (snd (snd bob_lists))
           @ [\<lparr>verb = ''GET'', url = base_url @ ''/user/repos?per_page=100'',
                kwargs = [(''timeout'', PTuple [PInt 10, PInt 30])], auth = ''tb''\<rparr>])
      = (Answer (with_json 200 (PList [PStr ''repo-of-bob''])), 0)
   \<and> fst alice_reads = Resp (with_json 200 (PList [PStr ''repo-of-alice'']))
   \<and> fst bob_reads = Resp (with_json 200 (PList [PStr ''repo-of-bob'']))
   \<and> sent (snd (snd bob_reads)) =
        [\<lparr>verb = ''GET'', url = base_url @ ''/user/repos?per_page=100'',
          kwargs = [(''timeout'', PTuple [PInt 10, PInt 30])], auth = ''ta''\<rparr>,
         \<lparr>verb = ''GET'', url = base_url @ ''/user/repos?per_page=100'',
          kwargs = [(''timeout'', PTuple [PInt 10, PInt 30])], auth = ''tb''\<rparr>]
   \<and> cache (close (instances (fst (snd bob_lists)) 0))
        (base_url @ ''/user/repos?per_page=100'' @ ''{}'')
       = Some (Resp (with_json 200 (PList [PStr ''repo-of-alice''])), 0)
   \<and> request_count (close (instances (fst (snd bob_lists)) 0)) = 1"
proof -
  let ?u = "base_url @ ''/user/repos?per_page=100''"
  let ?rq = "\<lparr>verb = ''GET'', url = ?u,
          kwargs = [(''timeout'', PTuple [PInt 10, PInt 30])], auth = ''ta''\<rparr>"
  let ?rqb = "\<lparr>verb = ''GET'', url = ?u,
          kwargs = [(''timeout'', PTuple [PInt 10, PInt 30])], auth = ''tb''\<rparr>"
  let ?r = "with_json 200 (PList [PStr ''repo-of-alice''])"
  let ?rb = "with_json 200 (PList [PStr ''repo-of-bob''])"
  let ?a1 = "(init ''ta'' ''alice'')
       \<lparr>cache := [?u @ ''{}'' \<mapsto> (Resp ?r, 0::real)], request_count := 1\<rparr>"
  let ?b1 = "(init ''tb'' ''bob'')
       \<lparr>cache := [?u @ ''{}'' \<mapsto> (Resp ?rb, 0::real)], request_count := 1\<rparr>"
  let ?w1 = "two_accounts\<lparr>sent := [?rq], wire := [?rq]\<rparr>"
  let ?w2 = "two_accounts\<lparr>sent := [?rq, ?rqb], wire := [?rq, ?rqb]\<rparr>"
  have m1: "make_request plain_lib ''GET'' ?u True [] (init ''ta'' ''alice'') two_accounts
            = (Resp ?r, ?a1, ?w1)"
    unfolding make_request_def attempts_three
    by (simp add: run_simps two_accounts_def upper_GET plain_key)
  have m2: "make_request plain_lib ''GET'' ?u True [] (init ''tb'' ''bob'') ?w1
            = (Resp ?rb, ?b1, ?w2)"
    unfolding make_request_def attempts_three
    by (simp add: run_simps two_accounts_def upper_GET plain_key)
  have body: "get_user_repos_body plain_lib (init ''ta'' ''alice'') two_accounts
            = (PList [PStr ''repo-of-alice''], ?a1, ?w1)"
    unfolding get_user_repos_body_def m1 by (simp add: with_json_def)
  have alice: "alice_lists =
      (PList [PStr ''repo-of-alice''],
       two_clients\<lparr>instances := (instances two_clients)(0 := ?a1),
                    repos_memo := [''(){}'' \<mapsto> (PList [PStr ''repo-of-alice''], 0)]\<rparr>,
       ?w1)"
    unfolding alice_lists_def instance_get_user_repos_def get_user_repos_def cache_result_def
      memo_key_none
    by (simp add: two_clients_def memo_hit_def body) (simp add: two_accounts_def start_def)
  have bob: "bob_lists =
      (PList [PStr ''repo-of-alice''],
       two_clients\<lparr>instances := (instances two_clients)(0 := ?a1),
                    repos_memo := [''(){}'' \<mapsto> (PList [PStr ''repo-of-alice''], 0)]\<rparr>,
       ?w1)"
    unfolding bob_lists_def alice instance_get_user_repos_def get_user_repos_def cache_result_def
      memo_key_none
    by (simp add: two_clients_def memo_hit_def two_accounts_def start_def fun_eq_iff)
  have alice_r: "alice_reads =
      (Resp ?r, two_clients\<lparr>instances := (instances two_clients)(0 := ?a1)\<rparr>, ?w1)"
    unfolding alice_reads_def on_instance_def
    by (simp add: two_clients_def m1)
  have bob_r: "bob_reads =
      (Resp ?rb,
       two_clients\<lparr>instances := (instances two_clients)(0 := ?a1, 1 := ?b1)\<rparr>, ?w2)"
    unfolding bob_reads_def alice_r on_instance_def
    by (simp add: two_clients_def m2)
  show ?thesis
    unfolding alice bob alice_r bob_r
    by (simp add: two_clients_def two_accounts_def start_def scripted_def init_def close_def)
qed

section \<open>The cache key\<close>

lemma make_request_miss_sends:
  assumes "cache_hit c w (if use_cache \<and> upper m = ''GET'' then Some (cache_key L u kw) else None)
             = None"
    and "make_request L m u use_cache kw c w = (res, c', w')"
  shows "sent w' \<noteq> sent w"
proof -
  from assms have "request_loop m u (default_timeout kw)
         (if use_cache \<and> upper m = ''GET'' then Some (cache_key L u kw) else None)
         [0..<max_retries] c w = (res, c', w')"
    by (simp only: make_request_miss)
  from request_loop_effect [OF this last_attempt] show ?thesis
    by (auto simp: max_retries_def)
qed

text \<open>
  C8, as the code has it. The key of a cached read is the digest of the text
  \<^verbatim>\<open>url + str(kwargs)\<close>, with the keyword arguments as the caller wrote them. After a
  first successful read on a new client, a second read within the expiry time is served
  from that entry exactly when its key is the same: then it returns the first response and
  sends nothing; with another key it calls the session.
\<close>

theorem entry_shared_iff_same_key:
  assumes first: "make_request L ''GET'' u1 True k1 (init tok user) w = (Resp r, c1, w1)"
    and ok: "status_code r < 400"
    and key: "cache_key L u1 k1 \<noteq> []"
    and fresh: "now w2 - now w1 < 300"
    and second: "make_request L ''GET'' u2 True k2 c1 w2 = (res, c2, w3)"
  shows "cache_key L u1 k1 = md5_hexdigest L (u1 @ str_of L (PDict k1))
       \<and> cache_key L u2 k2 = md5_hexdigest L (u2 @ str_of L (PDict k2))
       \<and> (if cache_key L u2 k2 = cache_key L u1 k1
           then res = Resp r \<and> sent w3 = sent w2 \<and> request_count c2 = request_count c1
           else sent w3 \<noteq> sent w2)"
proof -
  let ?k1 = "cache_key L u1 k1" and ?k2 = "cache_key L u2 k2"
  have "cache_hit (init tok user) w (Some ?k1) = None"
    by (simp add: cache_hit_def init_def)
  with first have "request_loop ''GET'' u1 (default_timeout k1) (Some ?k1) [0..<max_retries]
                     (init tok user) w = (Resp r, c1, w1)"
    by (simp add: make_request_def upper_GET)
  from request_loop_effect [OF this last_attempt] ok key
  have c1: "cache c1 = [?k1 \<mapsto> (Resp r, now w1)]" "cache_expiry c1 = 300"
    by (auto simp: after_loop_def store_response_def init_def)
  show ?thesis
  proof (cases "?k2 = ?k1")
    case True
    with c1 fresh have "cache_hit c1 w2 (Some ?k2) = Some (Resp r)"
      by (simp add: cache_hit_def)
    with second have "res = Resp r" "c2 = c1\<lparr>cached_requests := cached_requests c1 + 1\<rparr>"
      "w3 = w2"
      by (simp_all add: make_request_def upper_GET)
    with True show ?thesis by (simp add: cache_key_def)
  next
    case False
    with c1 have "cache_hit c1 w2 (if True \<and> upper ''GET'' = ''GET'' then Some ?k2 else None) = None"
      by (simp add: cache_hit_def upper_GET)
    from make_request_miss_sends [OF this second] False show ?thesis
      by (simp add: cache_key_def)
  qed
qed

lemma timeout_texts:
  "''u'' @ str_of plain_lib (PDict []) = ''u{}''"
  "''u'' @ str_of plain_lib (PDict [(''timeout'', PTuple [PInt 10, PInt 30])])
     = ''u{'timeout': (10, 30)}''"
  by (simp add: plain_lib_def, simp add: plain_lib_def, code_simp)

theorem entry_shared_iff_same_key_witness:
  "make_request plain_lib ''GET'' ''u'' True [] (init ''t'' ''me'')
        (start [Answer (with_json 200 (PStr ''x'')), Answer (with_json 200 (PStr ''y''))])
      = (Resp (with_json 200 (PStr ''x'')),
         \<lparr>token = ''t'', username = ''me'',
          cache = [''u{}'' \<mapsto> (Resp (with_json 200 (PStr ''x'')), 0)],
          cache_expiry = 300, session_closed = False, request_count = 1, cached_requests = 0\<rparr>,
         \<lparr>server = scripted [Answer (with_json 200 (PStr ''x'')),
                              Answer (with_json 200 (PStr ''y''))], now = 0,
          sent = [\<lparr>verb = ''GET'', url = ''u'',
                   kwargs = [(''timeout'', PTuple [PInt 10, PInt 30])], auth = ''t''\<rparr>],
          wire = [\<lparr>verb = ''GET'', url = ''u'',
                   kwargs = [(''timeout'', PTuple [PInt 10, PInt 30])], auth = ''t''\<rparr>],
          slept = []\<rparr>)
   \<and> status_code (with_json 200 (PStr ''x'')) < 400
   \<and> cache_key plain_lib ''u'' [] \<noteq> []
   \<and> cache_key plain_lib ''u'' [(''timeout'', PTuple [PInt 10, PInt 30])]
       \<noteq> cache_key plain_lib ''u'' []
   \<and> sent (snd (snd (make_request plain_lib ''GET'' ''u'' True
         [(''timeout'', PTuple [PInt 10, PInt 30])]
         \<lparr>token = ''t'', username = ''me'',
          cache = [''u{}'' \<mapsto> (Resp (with_json 200 (PStr ''x'')), 0)],
          cache_expiry = 300, session_closed = False, request_count = 1, cached_requests = 0\<rparr>
         \<lparr>server = scripted [Answer (with_json 200 (PStr ''x'')),
                              Answer (with_json 200 (PStr ''y''))], now = 10,
          sent = [\<lparr>verb = ''GET'', url = ''u'',
                   kwargs = [(''timeout'', PTuple [PInt 10, PInt 30])], auth = ''t''\<rparr>],
          wire = [\<lparr>verb = ''GET'', url = ''u'',
                   kwargs = [(''timeout'', PTuple [PInt 10, PInt 30])], auth = ''t''\<rparr>],
          slept = []\<rparr>)))
       \<noteq> [\<lparr>verb = ''GET'', url = ''u'',
             kwargs = [(''timeout'', PTuple [PInt 10, PInt 30])], auth = ''t''\<rparr>]"
proof -
  let ?r = "with_json 200 (PStr ''x'')"
  let ?c1 = "\<lparr>token = ''t'', username = ''me'',
          cache = [''u{}'' \<mapsto> (Resp ?r, 0)],
          cache_expiry = 300, session_closed = False, request_count = 1, cached_requests = 0\<rparr>"
  let ?rq = "\<lparr>verb = ''GET'', url = ''u'',
                   kwargs = [(''timeout'', PTuple [PInt 10, PInt 30])], auth = ''t''\<rparr>"
  let ?srv = "scripted [Answer (with_json 200 (PStr ''x'')),
                        Answer (with_json 200 (PStr ''y''))]"
  let ?w1 = "\<lparr>server = ?srv, now = 0, sent = [?rq], wire = [?rq], slept = []\<rparr>"
  let ?w2 = "\<lparr>server = ?srv, now = 10, sent = [?rq], wire = [?rq], slept = []\<rparr>"
  let ?second = "make_request plain_lib ''GET'' ''u'' True
         [(''timeout'', PTuple [PInt 10, PInt 30])] ?c1 ?w2"
  have first: "make_request plain_lib ''GET'' ''u'' True [] (init ''t'' ''me'')
        (start [Answer (with_json 200 (PStr ''x'')), Answer (with_json 200 (PStr ''y''))])
      = (Resp ?r, ?c1, ?w1)"
    unfolding make_request_def attempts_three
    by (simp add: run_simps upper_GET plain_key)
  have ok: "status_code ?r < 400" by (simp add: with_json_def)
  have key: "cache_key plain_lib ''u'' [] \<noteq> []" by (simp add: plain_key)
  have fresh: "now ?w2 - now ?w1 < 300" by simp
  have second: "?second = (fst ?second, fst (snd ?second), snd (snd ?second))" by simp
  have keys: "cache_key plain_lib ''u'' [(''timeout'', PTuple [PInt 10, PInt 30])]
                \<noteq> cache_key plain_lib ''u'' []"
    using timeout_texts by (simp add: cache_key_def plain_lib_def)
  from entry_shared_iff_same_key [OF first ok key fresh second] keys
  have "sent (snd (snd ?second)) \<noteq> sent ?w2" by simp
  with first ok key keys show ?thesis by simp
qed

text \<open>
  A read without keyword arguments and the same read with the default timeout spelled
  out hand the same request to the session, but the texts under the digest differ, and the
  second read is not served from the entry of the first.
\<close>

theorem spelled_timeout_counterexample:
  "default_timeout [] = default_timeout [(''timeout'', PTuple [PInt 10, PInt 30])]
   \<and> ''u'' @ str_of plain_lib (PDict []) = ''u{}''
   \<and> ''u'' @ str_of plain_lib (PDict [(''timeout'', PTuple [PInt 10, PInt 30])])
       = ''u{'timeout': (10, 30)}''
   \<and> (case run_calls plain_lib
             [(0, ''GET'', ''u'', True, []),
              (0, ''GET'', ''u'', True, [(''timeout'', PTuple [PInt 10, PInt 30])])]
             (init ''t'' ''me'')
             (start [Answer (with_json 200 (PStr ''x'')), Answer (with_json 200 (PStr ''x''))]) of
        (c', w') \<Rightarrow>
          sent w' =
            [\<lparr>verb = ''GET'', url = ''u'',
              kwargs = [(''timeout'', PTuple [PInt 10, PInt 30])], auth = ''t''\<rparr>,
             \<lparr>verb = ''GET'', url = ''u'',
              kwargs = [(''timeout'', PTuple [PInt 10, PInt 30])], auth = ''t''\<rparr>]
          \<and> cached_requests c' = 0 \<and> request_count c' = 2)"
proof -
  have keys: "cache_key plain_lib ''u'' [] = ''u{}''"
    "cache_key plain_lib ''u'' [(''timeout'', PTuple [PInt 10, PInt 30])] = ''u{'timeout': (10, 30)}''"
    using timeout_texts by (simp_all add: cache_key_def plain_lib_def)
  have differ: "''u{}'' \<noteq> ''u{'timeout': (10, 30)}''" by simp
  have same: "default_timeout [] = default_timeout [(''timeout'', PTuple [PInt 10, PInt 30])]"
    by (simp add: default_timeout_def)
  have run: "case run_calls plain_lib
             [(0, ''GET'', ''u'', True, []),
              (0, ''GET'', ''u'', True, [(''timeout'', PTuple [PInt 10, PInt 30])])]
             (init ''t'' ''me'')
             (start [Answer (with_json 200 (PStr ''x'')), Answer (with_json 200 (PStr ''x''))]) of
        (c', w') \<Rightarrow>
          sent w' =
            [\<lparr>verb = ''GET'', url = ''u'',
              kwargs = [(''timeout'', PTuple [PInt 10, PInt 30])], auth = ''t''\<rparr>,
             \<lparr>verb = ''GET'', url = ''u'',
              kwargs = [(''timeout'', PTuple [PInt 10, PInt 30])], auth = ''t''\<rparr>]
          \<and> cached_requests c' = 0 \<and> request_count c' = 2"
    using differ
    unfolding make_request_def attempts_three run_calls.simps keys
    by (simp add: run_simps upper_GET advance_def)
  from same timeout_texts run show ?thesis
    by (intro conjI)
qed

end
